theory Spec2Isabelle
  imports Complex_Main "HOL-Library.Monad_Syntax" "HOL-Library.AList"
begin

section \<open>Conventions of the embedding\<close>

text \<open>
  The Go backend is embedded function by function, under the source's names.

  \<^item> A Go pointer is a reference (a natural number) into a heap that is a total function
    of the state: a pointer the program holds always points at an object. A pointer that
    may be \<open>nil\<close> is an \<open>option\<close>.
  \<^item> A Go \<open>map[K]struct{}\<close> used as a set, and every map the code ranges over, is a list
    without repetitions: the order of the list stands for the order in which \<open>range\<close>
    yields the entries, which Go leaves open. No theorem below depends on that order.
  \<^item> A panic (\<open>Logger.Panic\<close>, a nil dereference) is the result \<open>None\<close>.
  \<^item> \<open>time.Time\<close> and \<open>time.Duration\<close> are integers (nanoseconds); \<open>time.Now()\<close> is a
    parameter \<open>now\<close> of the dispatch turn.
  \<^item> \<open>float64\<close> coordinates and scores are real numbers.
  \<^item> Calls of the logger have no effect on the state and are left out.
\<close>

type_synonym time = int

datatype error = Error string

section \<open>Messages (message.go)\<close>

text \<open>
  A payload value is a Go \<open>interface{}\<close>: a value together with its dynamic type. The
  datatype has the dynamic types that payloads carry: \<open>nil\<close>, \<open>bool\<close>, \<open>float64\<close>, \<open>int\<close>,
  \<open>uint8\<close> and \<open>string\<close>; \<open>VSlice\<close> is a \<open>[]interface{}\<close> and \<open>VArray\<close> an array or a slice
  of another type, such as \<open>[2]int\<close> or \<open>[]string\<close>; \<open>VMap\<close> is a \<open>map[string]interface{}\<close>
  and \<open>VTypedMap\<close> a map of another type, such as \<open>map[string]uint8\<close> or
  \<open>map[string]float64\<close>. Slices and maps are not nil, a \<open>float64\<close> is finite, and a
  string is valid UTF-8.
\<close>

datatype goval =
    VNil
  | VBool bool
  | VFloat64 real
  | VInt int
  | VUint8 nat
  | VString string
  | VSlice "goval list"
  | VArray "goval list"
  | VMap "string \<rightharpoonup> goval"
  | VTypedMap "string \<rightharpoonup> goval"

record Message =
  Type :: string
  payload :: "string \<rightharpoonup> goval"



subsection \<open>The library \<open>encoding/json\<close>\<close>








subsection \<open>\<open>Encode\<close>, \<open>ParseMessage\<close> and the getters\<close>



definition GetNumber :: "Message \<Rightarrow> string \<Rightarrow> error + real" where
  "GetNumber msg key =
     (case payload msg key of
        None \<Rightarrow> Inl (Error ''key does not exist'')
      | Some (VFloat64 x) \<Rightarrow> Inr x
      | Some v \<Rightarrow> Inl (Error ''cannot convert value to float64''))"

text \<open>
  \<open>math.Trunc\<close> and the conversion \<open>int(float)\<close> both round towards zero. Go's \<open>int\<close> is
  taken as the integers: a number outside the range of \<open>int\<close> is outside the model.
\<close>

definition toInt :: "real \<Rightarrow> int" where
  "toInt x = (if 0 \<le> x then \<lfloor>x\<rfloor> else \<lceil>x\<rceil>)"

definition Trunc :: "real \<Rightarrow> real" where
  "Trunc x = real_of_int (toInt x)"

definition GetInt :: "Message \<Rightarrow> string \<Rightarrow> error + int" where
  "GetInt msg key =
     (case GetNumber msg key of
        Inl floatErr \<Rightarrow> Inl floatErr
      | Inr float \<Rightarrow>
          if Trunc float \<noteq> float then Inl (Error ''float is not an integer'')
          else Inr (toInt float))"

section \<open>Timers (hub.go)\<close>

text \<open>
  A timer is a value \<open>FunctionTimer\<close> and one goroutine that selects on the timer's
  \<open>quit\<close> channel. The runtime keeps, for every channel, what that goroutine is doing,
  and the functions handed to \<open>Scheduler.Add\<close> so far (the hub's \<open>event\<close> channel,
  oldest first).

  The \<open>quit\<close> channel is unbuffered (\<open>make(chan func() error)\<close>): a send on it completes
  when the goroutine receives, and never completes once the goroutine has returned.
  \<open>Blocks\<close> is the result of a call that never returns for that reason.
\<close>

type_synonym chan = nat

record FunctionTimer =
  End :: time
  quit :: "chan option"

datatype 'f goroutine =
    Exited
  | Ticking 'f 'f
  | Single 'f

record 'f runtime =
  goroutines :: "chan \<Rightarrow> 'f goroutine"
  event :: "'f list"
  nextChan :: chan

datatype 'a outcome = Returns 'a | Blocks

definition ExpiredTimer :: "time \<Rightarrow> FunctionTimer" where
  "ExpiredTimer now = \<lparr>End = now, quit = None\<rparr>"

definition TickingTimer :: "time \<Rightarrow> 'f \<Rightarrow> 'f \<Rightarrow> 'f runtime \<Rightarrow> FunctionTimer \<times> 'f runtime" where
  "TickingTimer end' fn onNormalEnd rt =
     (\<lparr>End = end', quit = Some (nextChan rt)\<rparr>,
      rt\<lparr>goroutines := (goroutines rt)(nextChan rt := Ticking fn onNormalEnd),
         nextChan := Suc (nextChan rt)\<rparr>)"

definition SingleTimer :: "time \<Rightarrow> 'f \<Rightarrow> 'f runtime \<Rightarrow> FunctionTimer \<times> 'f runtime" where
  "SingleTimer end' fn rt =
     (\<lparr>End = end', quit = Some (nextChan rt)\<rparr>,
      rt\<lparr>goroutines := (goroutines rt)(nextChan rt := Single fn),
         nextChan := Suc (nextChan rt)\<rparr>)"

definition HasEnded :: "FunctionTimer \<Rightarrow> time \<Rightarrow> bool" where
  "HasEnded timer now = (quit timer = None \<or> End timer < now)"

definition WasStopped :: "FunctionTimer \<Rightarrow> bool" where
  "WasStopped timer = (quit timer = None)"

definition TimeLeft :: "FunctionTimer \<Rightarrow> time \<Rightarrow> time" where
  "TimeLeft timer now =
     (if quit timer = None then 0
      else if End timer < now then 0
      else End timer - now)"

text \<open>
  \<open>timer.quit <- fn\<close>: the goroutine on the channel receives \<open>f\<close>, stops its ticker or
  timer, schedules \<open>f\<close> if it is not nil, and returns. With no goroutine left the send
  blocks.
\<close>

definition send_quit :: "chan \<Rightarrow> 'f option \<Rightarrow> 'f runtime \<Rightarrow> 'f runtime outcome" where
  "send_quit c f rt =
     (case goroutines rt c of
        Exited \<Rightarrow> Blocks
      | _ \<Rightarrow> Returns (rt\<lparr>goroutines := (goroutines rt)(c := Exited),
                          event := event rt @ (case f of None \<Rightarrow> [] | Some g \<Rightarrow> [g])\<rparr>))"

text \<open>
  \<open>StopWith\<close> and \<open>Stop\<close> have value receivers (\<open>func (timer FunctionTimer) ...\<close>): they
  work on a copy of the caller's timer. \<open>StopWith\<close> returns that copy as it stands when the
  method returns, with the runtime; \<open>Stop\<close> returns the runtime only, because the copy is
  dropped and the caller's timer keeps its \<open>quit\<close> channel.
\<close>

definition StopWith ::
  "FunctionTimer \<Rightarrow> time \<Rightarrow> 'f option \<Rightarrow> 'f runtime \<Rightarrow> (FunctionTimer \<times> 'f runtime) outcome" where
  "StopWith timer now fn rt =
     (if HasEnded timer now then Returns (timer, rt)
      else case quit timer of
             None \<Rightarrow> Returns (timer, rt)
           | Some c \<Rightarrow>
               (case send_quit c fn rt of
                  Blocks \<Rightarrow> Blocks
                | Returns rt' \<Rightarrow> Returns (timer\<lparr>quit := None\<rparr>, rt')))"

definition Stop :: "FunctionTimer \<Rightarrow> time \<Rightarrow> 'f runtime \<Rightarrow> 'f runtime outcome" where
  "Stop timer now rt =
     (case StopWith timer now None rt of
        Blocks \<Rightarrow> Blocks
      | Returns (copy, rt') \<Rightarrow> Returns rt')"

text \<open>
  The goroutine that sleeps until \<open>End\<close> and then sends \<open>onNormalEnd\<close> on \<open>quit\<close> (for a
  single timer: the timer channel firing). If the selecting goroutine has returned, the
  sleeper stays blocked and nothing is scheduled.
\<close>

definition expire :: "chan \<Rightarrow> 'f runtime \<Rightarrow> 'f runtime" where
  "expire c rt =
     (case goroutines rt c of
        Exited \<Rightarrow> rt
      | Ticking fn onNormalEnd \<Rightarrow>
          rt\<lparr>goroutines := (goroutines rt)(c := Exited), event := event rt @ [onNormalEnd]\<rparr>
      | Single fn \<Rightarrow>
          rt\<lparr>goroutines := (goroutines rt)(c := Exited), event := event rt @ [fn]\<rparr>)"

section \<open>Clients, players, teams and lobbies (client.go, player.go, team.go, lobby.go, lobby_mgr.go)\<close>

type_synonym client_ref = nat
type_synonym player_ref = nat
type_synonym lobby_ref = nat
type_synonym ctx_ref = nat

text \<open>
  A \<open>*Team\<close> is the team with a given index (0 or 1) of a given lobby; the field
  \<open>Team.Lobby\<close> is the first component. A \<open>*LobbyActivity\<close> is named by its lobby, a
  \<open>*Ship\<close> by the lobby it was created from, a \<open>*MinigameContext\<close> by its reference.
\<close>

type_synonym team_ref = "lobby_ref \<times> nat"

datatype activity =
    InLobbyActivity lobby_ref
  | InShip lobby_ref
  | InMinigame ctx_ref

record Client =
  Player :: "player_ref option"

record Player =
  Team :: "team_ref option"
  Client :: "client_ref option"
  Activity :: "activity option"
  Name :: string

record Lobby =
  Teams :: "nat \<Rightarrow> player_ref list"
  ID :: string

text \<open>
  The state: the heap of clients, players and lobbies, the manager's map \<open>activities\<close>
  from lobby IDs to lobby activities, and \<open>out\<close>, the messages put on the hub's outbound
  channel, oldest first. A message is recorded by its receiver and its type; payloads are
  not modelled. \<open>Client.Send\<close> returns an error only when \<open>Encode\<close> does, that is when the
  payload defines \<open>type\<close> (or the marshaller fails); every message the core builds has
  fixed payload keys other than \<open>type\<close>, so the error result of a handler that only joins
  the results of \<open>Send\<close> is nil and is not modelled.

  The result \<open>None\<close> of a function on the state means that the call does not return: a
  panic, a send that blocks for ever, or a loop that is still running when its random
  candidates run out.
\<close>

record world =
  clients :: "client_ref \<Rightarrow> Client"
  players :: "player_ref \<Rightarrow> Player"
  lobbies :: "lobby_ref \<Rightarrow> Lobby"
  activities :: "string \<rightharpoonup> lobby_ref"
  out :: "(client_ref \<times> string) list"
  nextPlayer :: player_ref
  nextLobby :: lobby_ref

definition Send :: "client_ref \<Rightarrow> string \<Rightarrow> 'a world_scheme \<Rightarrow> 'a world_scheme" where
  "Send c typ w = w\<lparr>out := out w @ [(c, typ)]\<rparr>"

text \<open>\<open>p.Client.Send(msg)\<close>: a nil \<open>p.Client\<close> panics.\<close>

definition SendPlayer :: "player_ref \<Rightarrow> string \<Rightarrow> 'a world_scheme \<Rightarrow> 'a world_scheme option" where
  "SendPlayer p typ w =
     (case Client (players w p) of
        None \<Rightarrow> None
      | Some c \<Rightarrow> Some (Send c typ w))"

text \<open>A loop \<open>for p := range ps { p.Client.Send(msg) }\<close>.\<close>

fun SendPlayers :: "player_ref list \<Rightarrow> string \<Rightarrow> 'a world_scheme \<Rightarrow> 'a world_scheme option" where
  "SendPlayers [] typ w = Some w"
| "SendPlayers (p # ps) typ w =
     (case SendPlayer p typ w of
        None \<Rightarrow> None
      | Some w' \<Rightarrow> SendPlayers ps typ w')"

subsection \<open>Teams\<close>

definition set_add :: "'a \<Rightarrow> 'a list \<Rightarrow> 'a list" where
  "set_add x xs = (if x \<in> set xs then xs else xs @ [x])"

definition Team_AddPlayer :: "team_ref \<Rightarrow> player_ref \<Rightarrow> 'a world_scheme \<Rightarrow> 'a world_scheme option" where
  "Team_AddPlayer team player w =
     (if Team (players w player) \<noteq> None then None
      else
        let l = fst team; i = snd team;
            lob = lobbies w l
        in Some (w\<lparr>lobbies := (lobbies w)(l := lob\<lparr>Teams := (Teams lob)(i := set_add player (Teams lob i))\<rparr>),
                   players := (players w)(player := (players w player)\<lparr>Team := Some team\<rparr>)\<rparr>))"

definition Team_RemovePlayer :: "team_ref \<Rightarrow> player_ref \<Rightarrow> 'a world_scheme \<Rightarrow> 'a world_scheme option" where
  "Team_RemovePlayer team player w =
     (if Team (players w player) \<noteq> Some team then None
      else
        let l = fst team; i = snd team;
            lob = lobbies w l
        in Some (w\<lparr>lobbies := (lobbies w)(l := lob\<lparr>Teams := (Teams lob)(i := removeAll player (Teams lob i))\<rparr>),
                   players := (players w)(player := (players w player)\<lparr>Team := None\<rparr>)\<rparr>))"

definition OpposingTeam :: "team_ref \<Rightarrow> team_ref" where
  "OpposingTeam team = (if snd team = 0 then (fst team, 1) else (fst team, 0))"

definition Index :: "team_ref \<Rightarrow> nat" where
  "Index team = snd team"

subsection \<open>Lobbies\<close>

definition PlayerCount :: "Lobby \<Rightarrow> nat" where
  "PlayerCount lob = length (Teams lob 0) + length (Teams lob 1)"

text \<open>\<open>ForAllPlayers\<close> calls \<open>fn\<close> on the members of team 0, then on those of team 1.\<close>

definition ForAllPlayers :: "Lobby \<Rightarrow> player_ref list" where
  "ForAllPlayers lob = Teams lob 0 @ Teams lob 1"

definition buildPlayerNameSet :: "'a world_scheme \<Rightarrow> lobby_ref \<Rightarrow> string list" where
  "buildPlayerNameSet w l = map (\<lambda>p. Name (players w p)) (ForAllPlayers (lobbies w l))"

text \<open>
  \<open>generatePlayerName\<close> draws random user names until one is free. The second argument
  lists the names \<open>randomUsername()\<close> returns, in order.
\<close>

fun generatePlayerName :: "string list \<Rightarrow> string list \<Rightarrow> string option" where
  "generatePlayerName taken [] = None"
| "generatePlayerName taken (name # rest) =
     (if name \<in> set taken then generatePlayerName taken rest else Some name)"

definition AddClient :: "lobby_ref \<Rightarrow> client_ref \<Rightarrow> string list \<Rightarrow> 'a world_scheme \<Rightarrow> 'a world_scheme option" where
  "AddClient l client usernames w =
     (if Player (clients w client) \<noteq> None then None
      else
        case generatePlayerName (buildPlayerNameSet w l) usernames of
          None \<Rightarrow> None
        | Some name \<Rightarrow>
            let p = nextPlayer w;
                w1 = w\<lparr>players := (players w)(p := \<lparr>Team = None, Client = Some client,
                                                     Activity = None, Name = name\<rparr>),
                       clients := (clients w)(client := (clients w client)\<lparr>Player := Some p\<rparr>),
                       nextPlayer := Suc p\<rparr>
            in if length (Teams (lobbies w1 l) 0) \<le> length (Teams (lobbies w1 l) 1)
               then Team_AddPlayer (l, 0) p w1
               else Team_AddPlayer (l, 1) p w1)"

definition forget :: "lobby_ref \<Rightarrow> 'a world_scheme \<Rightarrow> 'a world_scheme" where
  "forget l w = w\<lparr>activities := (activities w)(ID (lobbies w l) := None)\<rparr>"

definition GetActivity :: "'a world_scheme \<Rightarrow> string \<Rightarrow> lobby_ref option" where
  "GetActivity w id' = activities w id'"

definition Lobby_RemovePlayer :: "lobby_ref \<Rightarrow> player_ref \<Rightarrow> 'a world_scheme \<Rightarrow> 'a world_scheme option" where
  "Lobby_RemovePlayer l player w =
     (case Team (players w player) of
        None \<Rightarrow> None
      | Some team \<Rightarrow>
          if fst team \<noteq> l then None
          else
            case Team_RemovePlayer team player w of
              None \<Rightarrow> None
            | Some w1 \<Rightarrow>
                (case Client (players w1 player) of
                   None \<Rightarrow> None
                 | Some c \<Rightarrow>
                     let w2 = w1\<lparr>clients := (clients w1)(c := (clients w1 c)\<lparr>Player := None\<rparr>),
                                 players := (players w1)(player := (players w1 player)\<lparr>Client := None\<rparr>)\<rparr>
                     in if PlayerCount (lobbies w2 l) = 0 then Some (forget l w2) else Some w2))"

subsection \<open>The lobby activity: joining (lobby_act.go, lobby_mgr.go)\<close>

definition ForAllLobbyPeers :: "'a world_scheme \<Rightarrow> player_ref \<Rightarrow> player_ref list option" where
  "ForAllLobbyPeers w player =
     (case Team (players w player) of
        None \<Rightarrow> None
      | Some team \<Rightarrow> Some (filter (\<lambda>p. p \<noteq> player) (ForAllPlayers (lobbies w (fst team)))))"

definition notifyJoinee :: "player_ref \<Rightarrow> 'a world_scheme \<Rightarrow> 'a world_scheme option" where
  "notifyJoinee player w =
     (case Team (players w player) of
        None \<Rightarrow> None
      | Some team \<Rightarrow> SendPlayer player ''lobby_welcome'' w)"

definition notifyJoineePeers :: "player_ref \<Rightarrow> 'a world_scheme \<Rightarrow> 'a world_scheme option" where
  "notifyJoineePeers player w =
     (case ForAllLobbyPeers w player of
        None \<Rightarrow> None
      | Some peers \<Rightarrow> SendPlayers peers ''lobby_peer_joined'' w)"

definition notifyPlayerJoin :: "player_ref \<Rightarrow> 'a world_scheme \<Rightarrow> 'a world_scheme option" where
  "notifyPlayerJoin player w =
     (case notifyJoinee player w of
        None \<Rightarrow> None
      | Some w' \<Rightarrow> notifyJoineePeers player w')"

definition HandleJoinRequest :: "lobby_ref \<Rightarrow> client_ref \<Rightarrow> string list \<Rightarrow> 'a world_scheme \<Rightarrow> 'a world_scheme option" where
  "HandleJoinRequest l client usernames w =
     (if Player (clients w client) \<noteq> None then Some (Send client ''client_already_in_lobby_error'' w)
      else if 5 < PlayerCount (lobbies w l) then Some (Send client ''lobby_full'' w)
      else
        case AddClient l client usernames w of
          None \<Rightarrow> None
        | Some w1 \<Rightarrow>
            (case Player (clients w1 client) of
               None \<Rightarrow> None
             | Some p \<Rightarrow>
                 notifyPlayerJoin p
                   (w1\<lparr>players := (players w1)(p := (players w1 p)\<lparr>Activity := Some (InLobbyActivity l)\<rparr>)\<rparr>)))"

text \<open>
  \<open>createLobby\<close> registers a new, empty lobby under the ID that \<open>generateLobbyID\<close> (a
  random four-digit code) returns; the ID is the parameter \<open>code\<close>.
\<close>

definition createLobby :: "string \<Rightarrow> 'a world_scheme \<Rightarrow> lobby_ref \<times> 'a world_scheme" where
  "createLobby code w =
     (nextLobby w,
      w\<lparr>lobbies := (lobbies w)(nextLobby w := \<lparr>Teams = (\<lambda>i. []), ID = code\<rparr>),
        activities := (activities w)(code \<mapsto> nextLobby w),
        nextLobby := Suc (nextLobby w)\<rparr>)"

definition HandleLobbyCreate :: "client_ref \<Rightarrow> string \<Rightarrow> string list \<Rightarrow> 'a world_scheme \<Rightarrow> 'a world_scheme option" where
  "HandleLobbyCreate client code usernames w =
     (case createLobby code w of (act, w1) \<Rightarrow> HandleJoinRequest act client usernames w1)"

subsection \<open>Well-formed states and example states\<close>

text \<open>Every listed player has a client: what holds of the members of a lobby.\<close>

definition connected :: "'a world_scheme \<Rightarrow> player_ref list \<Rightarrow> bool" where
  "connected w ps = list_all (\<lambda>q. Client (players w q) \<noteq> None) ps"

text \<open>
  A lobby with six players (clients and players 0 to 5), and a lobby whose only player is
  player 0 of client 0 on team 0. A client above 5 (respectively 0) has no player.
\<close>

definition full_lobby_world :: world where
  "full_lobby_world =
     \<lparr>clients = (\<lambda>c. \<lparr>Player = (if c < 6 then Some c else None)\<rparr>),
      players = (\<lambda>p. \<lparr>Team = Some (0, p mod 2), Client = Some p,
                       Activity = Some (InLobbyActivity 0), Name = ''name''\<rparr>),
      lobbies = (\<lambda>l. \<lparr>Teams = (\<lambda>i. if i = 0 then [0, 2, 4] else [1, 3, 5]), ID = ''1234''\<rparr>),
      activities = [''1234'' \<mapsto> 0],
      out = [],
      nextPlayer = 6,
      nextLobby = 1\<rparr>"

definition small_lobby_world :: world where
  "small_lobby_world =
     \<lparr>clients = (\<lambda>c. \<lparr>Player = (if c = 0 then Some 0 else None)\<rparr>),
      players = (\<lambda>p. \<lparr>Team = Some (0, 0), Client = Some p,
                       Activity = Some (InLobbyActivity 0), Name = ''name''\<rparr>),
      lobbies = (\<lambda>l. \<lparr>Teams = (\<lambda>i. if i = 0 then [0] else []), ID = ''1234''\<rparr>),
      activities = [''1234'' \<mapsto> 0],
      out = [],
      nextPlayer = 1,
      nextLobby = 1\<rparr>"

section \<open>The ship (movement.go, activity.go, ship.go)\<close>

subsection \<open>Positions\<close>

record Position =
  X :: real
  Y :: real

definition DistSq :: "Position \<Rightarrow> Position \<Rightarrow> real" where
  "DistSq p q = (X p - X q) * (X p - X q) + (Y p - Y q) * (Y p - Y q)"

definition RotateAboutOrigin :: "Position \<Rightarrow> real \<Rightarrow> Position" where
  "RotateAboutOrigin p angle =
     \<lparr>X = X p * cos angle - Y p * sin angle, Y = X p * sin angle + Y p * cos angle\<rparr>"

definition playerFlagReach :: real where
  "playerFlagReach = 50"

definition cooldownTickInterval :: time where
  "cooldownTickInterval = 1000000000"

subsection \<open>Minigame prototypes, results and contexts\<close>

text \<open>
  A \<open>ScoreStore\<close> is an \<open>interface{}\<close>; the click race stores a \<open>*int\<close>. The pointer is a
  reference into the heap \<open>scoreStores\<close> of the state.
\<close>

type_synonym store_ref = nat

datatype ScoreStore = IntStore int | OtherStore

text \<open>
  The state of the click race (\<open>click_race.state\<close>): the reported scores and the game
  timer.
\<close>

record state =
  reportedScores :: "player_ref \<rightharpoonup> int"
  gameTimer :: FunctionTimer

text \<open>
  A \<open>MinigameImpl\<close> is the click race, or one of the other minigames, which are
  collaborators of the core and are not modelled: their \<open>Start\<close> is taken to send their
  own welcome messages and to start their own timers only, as the minigames that
  \<open>createFlags\<close> places do, and these are not recorded.
\<close>

datatype MinigameImpl = ClickRace state | OtherImpl

text \<open>
  A prototype. \<open>StoreCtor\<close> is the value of the store the constructor allocates, if the
  prototype has one; \<open>Constructor\<close> is the implementation state it creates, at the time
  given.
\<close>

record MinigamePrototype =
  PName :: string
  PlayerCount' :: int
  Worth :: int
  Cooldown :: time
  StoreCtor :: "ScoreStore option"
  Constructor :: "time \<Rightarrow> MinigameImpl"

text \<open>Go's integer division truncates towards zero.\<close>

definition quo :: "int \<Rightarrow> int \<Rightarrow> int" where
  "quo a b = sgn a * sgn b * (\<bar>a\<bar> div \<bar>b\<bar>)"

definition TeamSize :: "MinigamePrototype \<Rightarrow> int" where
  "TeamSize p = quo (PlayerCount' p) 2"

definition IndividualWorth :: "MinigamePrototype \<Rightarrow> real" where
  "IndividualWorth p =
     (if PlayerCount' p = 1 then real_of_int (Worth p)
      else real_of_int (Worth p) / real_of_int (TeamSize p))"

record MinigameResult =
  winningTeam :: "team_ref option"
  disconnected :: "player_ref option"

record MinigameContext =
  Ship :: "lobby_ref option"
  Store :: "store_ref option"
  proto :: "MinigamePrototype option"
  impl :: "MinigameImpl option"

subsection \<open>Flags\<close>

record activation =
  startTime :: time
  lockedPlayers :: "player_ref list"

record flag =
  pos :: Position
  minigameProto :: MinigamePrototype
  minigame :: "ctx_ref option"
  store :: "store_ref option"
  owner :: "team_ref option"
  cooldown :: FunctionTimer
  activation :: "activation option"

text \<open>
  The functions the ship hands to the scheduler: \<open>ship.tick\<close>, the end of the ship timer
  (\<open>ship.triggerEndgame(nil)\<close>), the tick and the end of the cooldown of the flag with
  the given ID, and the click race's \<open>onTimeout\<close>.
\<close>

datatype callback =
    ShipTick
  | ShipTimerEnd
  | CooldownTick string
  | CooldownEnd string
  | CpsTimeout ctx_ref

subsection \<open>The state of a ship\<close>

text \<open>
  The state of one ship, on top of the heap of its clients, players and lobbies.
  \<open>flags\<close> is \<open>fm.flags\<close>; a \<open>*flag\<close> is named by its ID, and a flag never leaves the map.
  \<open>pm\<close> is \<open>pm.Map\<close>; the prefix of the position manager is \<open>ship_mov_\<close>. \<open>scheduler\<close> is
  the scheduler with the goroutines of all timers. \<open>contexts\<close> and \<open>scoreStores\<close> are the
  heaps of minigame contexts and of stores. \<open>rands\<close> lists what \<open>rand.Int()\<close> returns from
  now on, and \<open>shuffle\<close> is what \<open>rand.Shuffle\<close> makes of a list. Recording is off
  (\<open>ship.Recorder\<close> is nil, as it is without \<open>--record\<close>).
\<close>

record ship = world +
  lobby :: lobby_ref
  flags :: "(string \<times> flag) list"
  pm :: "player_ref \<rightharpoonup> Position"
  individualScores :: "player_ref \<rightharpoonup> real"
  timer :: FunctionTimer
  isEndgame :: bool
  scheduler :: "callback runtime"
  contexts :: "ctx_ref \<Rightarrow> MinigameContext"
  nextContext :: ctx_ref
  scoreStores :: "store_ref \<Rightarrow> ScoreStore"
  nextStore :: store_ref
  rands :: "nat \<Rightarrow> nat"
  shuffle :: "player_ref list \<Rightarrow> player_ref list"

definition getFlag :: "ship \<Rightarrow> string \<Rightarrow> flag option" where
  "getFlag s f = map_of (flags s) f"

definition setFlag :: "string \<Rightarrow> (flag \<Rightarrow> flag) \<Rightarrow> ship \<Rightarrow> ship" where
  "setFlag f upd s = s\<lparr>flags := AList.map_entry f upd (flags s)\<rparr>"

definition position :: "ship \<Rightarrow> player_ref \<Rightarrow> Position" where
  "position s p = (case pm s p of None \<Rightarrow> \<lparr>X = 0, Y = 0\<rparr> | Some q \<Rightarrow> q)"

subsection \<open>Flags and the flag manager\<close>

definition isActivated :: "flag \<Rightarrow> bool" where
  "isActivated f = (activation f \<noteq> None)"

definition needsPlayer :: "ship \<Rightarrow> flag \<Rightarrow> player_ref \<Rightarrow> bool option" where
  "needsPlayer s f p =
     (case activation f of
        None \<Rightarrow> None
      | Some a \<Rightarrow>
          let reqN = TeamSize (minigameProto f);
              realN = int (length (filter (\<lambda>pl. Team (players s pl) = Team (players s p))
                                     (lockedPlayers a)))
          in Some (realN < reqN))"

definition hasAllPlayers :: "flag \<Rightarrow> bool option" where
  "hasAllPlayers f =
     (case activation f of
        None \<Rightarrow> None
      | Some a \<Rightarrow> Some (int (length (lockedPlayers a)) = PlayerCount' (minigameProto f)))"

text \<open>
  \<open>addMinigameFlag\<close>: a taken ID panics; the store, if the prototype has one, is
  allocated here and nowhere else.
\<close>

definition addMinigameFlag :: "string \<Rightarrow> MinigamePrototype \<Rightarrow> Position \<Rightarrow> time \<Rightarrow> ship \<Rightarrow> ship option" where
  "addMinigameFlag f pr ps now s =
     (if f \<in> fst ` set (flags s) then None
      else
        case StoreCtor pr of
          None \<Rightarrow>
            Some (s\<lparr>flags := flags s @ [(f, \<lparr>pos = ps, minigameProto = pr, minigame = None,
                      store = None, owner = None, cooldown = ExpiredTimer now, activation = None\<rparr>)]\<rparr>)
        | Some v \<Rightarrow>
            Some (s\<lparr>flags := flags s @ [(f, \<lparr>pos = ps, minigameProto = pr, minigame = None,
                      store = Some (nextStore s), owner = None, cooldown = ExpiredTimer now,
                      activation = None\<rparr>)],
                    scoreStores := (scoreStores s)(nextStore s := v),
                    nextStore := Suc (nextStore s)\<rparr>))"

fun flagForPlayer_loop :: "(string \<times> flag) list \<Rightarrow> player_ref \<Rightarrow> string option" where
  "flagForPlayer_loop [] p = None"
| "flagForPlayer_loop ((f, fl) # rest) p =
     (case activation fl of
        None \<Rightarrow> flagForPlayer_loop rest p
      | Some a \<Rightarrow> if p \<in> set (lockedPlayers a) then Some f else flagForPlayer_loop rest p)"

definition flagForPlayer :: "ship \<Rightarrow> player_ref \<Rightarrow> string option" where
  "flagForPlayer s p = flagForPlayer_loop (flags s) p"

text \<open>
  The loop of \<open>oldestFlagNeedingPlayer\<close>, with \<open>oldest\<close> as its accumulator. The outer
  \<open>option\<close> is the panic of \<open>needsPlayer\<close> or of a nil \<open>oldest.activation\<close>.
\<close>

fun oldestFlagNeedingPlayer_loop ::
  "ship \<Rightarrow> player_ref \<Rightarrow> (string \<times> flag) list \<Rightarrow> (string \<times> flag) option \<Rightarrow> (string \<times> flag) option option" where
  "oldestFlagNeedingPlayer_loop s p [] oldest = Some oldest"
| "oldestFlagNeedingPlayer_loop s p ((f, fl) # rest) oldest =
     (case activation fl of
        None \<Rightarrow> oldestFlagNeedingPlayer_loop s p rest oldest
      | Some a \<Rightarrow>
          (case (case oldest of
                   None \<Rightarrow> Some True
                 | Some (o_id, o_fl) \<Rightarrow>
                     (case activation o_fl of
                        None \<Rightarrow> None
                      | Some oa \<Rightarrow> Some (startTime a < startTime oa))) of
             None \<Rightarrow> None
           | Some False \<Rightarrow> oldestFlagNeedingPlayer_loop s p rest oldest
           | Some True \<Rightarrow>
               (case needsPlayer s fl p of
                  None \<Rightarrow> None
                | Some True \<Rightarrow> oldestFlagNeedingPlayer_loop s p rest (Some (f, fl))
                | Some False \<Rightarrow> oldestFlagNeedingPlayer_loop s p rest oldest)))"

definition oldestFlagNeedingPlayer :: "ship \<Rightarrow> player_ref \<Rightarrow> string option option" where
  "oldestFlagNeedingPlayer s p =
     map_option (map_option fst) (oldestFlagNeedingPlayer_loop s p (flags s) None)"

definition idForFlag :: "ship \<Rightarrow> string \<Rightarrow> string option" where
  "idForFlag s f = (if f \<in> fst ` set (flags s) then Some f else None)"

definition flagForMinigame :: "ship \<Rightarrow> ctx_ref \<Rightarrow> string option" where
  "flagForMinigame s ctx = map_option fst (find (\<lambda>(f, fl). minigame fl = Some ctx) (flags s))"

definition areAnyMinigamesOngoing :: "ship \<Rightarrow> bool" where
  "areAnyMinigamesOngoing s = list_ex (\<lambda>(f, fl). minigame fl \<noteq> None) (flags s)"

fun teamScores_loop :: "(string \<times> flag) list \<Rightarrow> int \<times> int \<Rightarrow> int \<times> int" where
  "teamScores_loop [] acc = acc"
| "teamScores_loop ((f, fl) # rest) (s0, s1) =
     (case owner fl of
        None \<Rightarrow> teamScores_loop rest (s0, s1)
      | Some t \<Rightarrow>
          if Index t = 0 then teamScores_loop rest (s0 + Worth (minigameProto fl), s1)
          else teamScores_loop rest (s0, s1 + Worth (minigameProto fl)))"

definition teamScores :: "ship \<Rightarrow> int \<times> int" where
  "teamScores s = teamScores_loop (flags s) (0, 0)"

text \<open>
  \<open>clearForEndgame\<close>: every flag loses its activation and its cooldown timer is stopped.
  \<open>Stop\<close> works on a copy of \<open>flag.cooldown\<close>, so only the scheduler changes.
\<close>

fun clearForEndgame_loop :: "string list \<Rightarrow> time \<Rightarrow> ship \<Rightarrow> ship option" where
  "clearForEndgame_loop [] now s = Some s"
| "clearForEndgame_loop (f # rest) now s =
     (case getFlag s f of
        None \<Rightarrow> None
      | Some fl \<Rightarrow>
          (case Stop (cooldown fl) now (scheduler s) of
             Blocks \<Rightarrow> None
           | Returns rt \<Rightarrow>
               clearForEndgame_loop rest now
                 ((setFlag f (\<lambda>fl. fl\<lparr>activation := None\<rparr>) s)\<lparr>scheduler := rt\<rparr>)))"

definition clearForEndgame :: "time \<Rightarrow> ship \<Rightarrow> ship option" where
  "clearForEndgame now s = clearForEndgame_loop (map fst (flags s)) now s"

subsection \<open>Who is where\<close>

definition ForAllShipPlayers :: "ship \<Rightarrow> player_ref list" where
  "ForAllShipPlayers s =
     filter (\<lambda>p. Activity (players s p) = Some (InShip (lobby s))) (ForAllPlayers (lobbies s (lobby s)))"

definition ForAllActivityPeers :: "'a world_scheme \<Rightarrow> player_ref \<Rightarrow> player_ref list option" where
  "ForAllActivityPeers w player =
     map_option (filter (\<lambda>lobbyPeer. Activity (players w lobbyPeer) = Activity (players w player)))
       (ForAllLobbyPeers w player)"

definition ForAllShipPeers :: "'a world_scheme \<Rightarrow> player_ref \<Rightarrow> player_ref list option" where
  "ForAllShipPeers w player =
     (case Activity (players w player) of
        Some (InShip l) \<Rightarrow> ForAllActivityPeers w player
      | _ \<Rightarrow> None)"

subsection \<open>Minigame contexts\<close>

text \<open>\<open>fn\<close> called on every element of a list in turn; a panic ends the loop.\<close>

fun forEach :: "('a \<Rightarrow> 's \<Rightarrow> 's option) \<Rightarrow> 'a list \<Rightarrow> 's \<Rightarrow> 's option" where
  "forEach fn [] s = Some s"
| "forEach fn (x # xs) s =
     (case fn x s of
        None \<Rightarrow> None
      | Some s' \<Rightarrow> forEach fn xs s')"

definition setActivity :: "activity option \<Rightarrow> player_ref \<Rightarrow> 'a world_scheme \<Rightarrow> 'a world_scheme" where
  "setActivity a p w = w\<lparr>players := (players w)(p := (players w p)\<lparr>Activity := a\<rparr>)\<rparr>"

definition ensureValid :: "ship \<Rightarrow> ctx_ref \<Rightarrow> unit option" where
  "ensureValid s ctx =
     (if proto (contexts s ctx) = None \<or> impl (contexts s ctx) = None \<or> Ship (contexts s ctx) = None
      then None else Some ())"

definition invalidate :: "ctx_ref \<Rightarrow> ship \<Rightarrow> ship" where
  "invalidate ctx s =
     s\<lparr>contexts := (contexts s)(ctx := \<lparr>Ship = None, Store = None, proto = None, impl = None\<rparr>)\<rparr>"

definition MinigameContext_ForAllPlayers :: "ship \<Rightarrow> ctx_ref \<Rightarrow> player_ref list option" where
  "MinigameContext_ForAllPlayers s ctx =
     (case ensureValid s ctx of
        None \<Rightarrow> None
      | Some u \<Rightarrow>
          (case Ship (contexts s ctx) of
             None \<Rightarrow> None
           | Some l \<Rightarrow>
               Some (filter (\<lambda>p. Activity (players s p) = Some (InMinigame ctx))
                            (ForAllPlayers (lobbies s l)))))"

definition ExactlyOnePlayer :: "ship \<Rightarrow> ctx_ref \<Rightarrow> player_ref option" where
  "ExactlyOnePlayer s ctx =
     (case ensureValid s ctx of
        None \<Rightarrow> None
      | Some u \<Rightarrow>
          (case MinigameContext_ForAllPlayers s ctx of
             None \<Rightarrow> None
           | Some ps \<Rightarrow> (case ps of [p] \<Rightarrow> Some p | _ \<Rightarrow> None)))"

subsection \<open>The click race (click_race.go): start\<close>

definition duration :: time where
  "duration = 5000000000"

definition newState :: "time \<Rightarrow> state" where
  "newState now = \<lparr>reportedScores = Map.empty, gameTimer = ExpiredTimer now\<rparr>"

definition ProtoSp :: MinigamePrototype where
  "ProtoSp =
     \<lparr>PName = ''cps_race_sp'', PlayerCount' = 1, Worth = 1, Cooldown = 5000000000,
      StoreCtor = Some (IntStore 0), Constructor = (\<lambda>now. ClickRace (newState now))\<rparr>"

definition ClickRace_Start :: "state \<Rightarrow> ctx_ref \<Rightarrow> time \<Rightarrow> ship \<Rightarrow> ship option" where
  "ClickRace_Start st ctx now s =
     (case proto (contexts s ctx) of
        None \<Rightarrow> None
      | Some pr \<Rightarrow>
          if PlayerCount' pr = 1 \<and>
             (case Store (contexts s ctx) of
                None \<Rightarrow> True
              | Some r \<Rightarrow> (case scoreStores s r of IntStore v \<Rightarrow> False | OtherStore \<Rightarrow> True))
          then None
          else
            case MinigameContext_ForAllPlayers s ctx of
              None \<Rightarrow> None
            | Some ps \<Rightarrow>
                (case SendPlayers ps ''cps_welcome'' s of
                   None \<Rightarrow> None
                 | Some s1 \<Rightarrow>
                     (case SingleTimer (now + duration) (CpsTimeout ctx) (scheduler s1) of
                        (t, rt) \<Rightarrow>
                          Some (s1\<lparr>scheduler := rt,
                                   contexts := (contexts s1)(ctx := (contexts s1 ctx)
                                      \<lparr>impl := Some (ClickRace (st\<lparr>gameTimer := t\<rparr>))\<rparr>)\<rparr>))))"

definition MinigameContext_Start :: "ctx_ref \<Rightarrow> time \<Rightarrow> ship \<Rightarrow> ship option" where
  "MinigameContext_Start ctx now s =
     (case ensureValid s ctx of
        None \<Rightarrow> None
      | Some u \<Rightarrow>
          (case impl (contexts s ctx) of
             None \<Rightarrow> None
           | Some (ClickRace st) \<Rightarrow> ClickRace_Start st ctx now s
           | Some OtherImpl \<Rightarrow> Some s))"

subsection \<open>Locking players to flags and starting minigames\<close>

definition addPlayerToFlag :: "string \<Rightarrow> player_ref \<Rightarrow> ship \<Rightarrow> ship option" where
  "addPlayerToFlag f p s =
     (case getFlag s f of
        None \<Rightarrow> None
      | Some fl \<Rightarrow>
          (case activation fl of
             None \<Rightarrow> None
           | Some a \<Rightarrow>
               (case idForFlag s f of
                  None \<Rightarrow> None
                | Some id' \<Rightarrow>
                    (case SendPlayer p ''ship_player_lock_set''
                            (setFlag f (\<lambda>fl. fl\<lparr>activation :=
                               Some (a\<lparr>lockedPlayers := set_add p (lockedPlayers a)\<rparr>)\<rparr>) s) of
                       None \<Rightarrow> None
                     | Some s1 \<Rightarrow>
                         (case ForAllShipPeers s1 p of
                            None \<Rightarrow> None
                          | Some peers \<Rightarrow> SendPlayers peers ''ship_peer_lock_set'' s1)))))"

text \<open>
  The loop of \<open>findEligiblePlayersForFlags\<close> over the players in the ship; the map from
  flags to the players eligible for them is a list of entries with distinct keys.
\<close>

fun findEligiblePlayersForFlags_loop ::
  "ship \<Rightarrow> player_ref list \<Rightarrow> (string \<times> player_ref list) list \<Rightarrow> (string \<times> player_ref list) list option" where
  "findEligiblePlayersForFlags_loop s [] acc = Some acc"
| "findEligiblePlayersForFlags_loop s (p # ps) acc =
     (if flagForPlayer s p \<noteq> None then findEligiblePlayersForFlags_loop s ps acc
      else
        case oldestFlagNeedingPlayer s p of
          None \<Rightarrow> None
        | Some None \<Rightarrow> findEligiblePlayersForFlags_loop s ps acc
        | Some (Some f) \<Rightarrow>
            findEligiblePlayersForFlags_loop s ps
              (if f \<in> fst ` set acc then AList.map_entry f (\<lambda>l. l @ [p]) acc
               else acc @ [(f, [p])]))"

definition findEligiblePlayersForFlags :: "ship \<Rightarrow> (string \<times> player_ref list) list option" where
  "findEligiblePlayersForFlags s = findEligiblePlayersForFlags_loop s (ForAllShipPlayers s) []"

definition notifyMinigameStart :: "string \<Rightarrow> ship \<Rightarrow> ship option" where
  "notifyMinigameStart f s =
     (case idForFlag s f of
        None \<Rightarrow> None
      | Some flagID \<Rightarrow>
          (case getFlag s f of
             None \<Rightarrow> None
           | Some fl \<Rightarrow>
               (case activation fl of
                  None \<Rightarrow> None
                | Some a \<Rightarrow>
                    (case SendPlayers (lockedPlayers a) ''ship_minigame_join'' s of
                       None \<Rightarrow> None
                     | Some s1 \<Rightarrow>
                         forEach
                           (\<lambda>shipPlayer s'.
                              if shipPlayer \<in> set (lockedPlayers a) then Some s'
                              else SendPlayers (map (\<lambda>minigamePlayer. shipPlayer) (lockedPlayers a))
                                     ''ship_peer_minigame_join'' s')
                           (ForAllShipPlayers s1) s1))))"

definition startMinigameForFlag :: "string \<Rightarrow> time \<Rightarrow> ship \<Rightarrow> ship option" where
  "startMinigameForFlag f now s =
     (case notifyMinigameStart f s of
        None \<Rightarrow> None
      | Some s1 \<Rightarrow>
          (case getFlag s1 f of
             None \<Rightarrow> None
           | Some fl \<Rightarrow>
               (case activation fl of
                  None \<Rightarrow> None
                | Some a \<Rightarrow>
                    let ctx = nextContext s1;
                        s2 = s1\<lparr>contexts := (contexts s1)(ctx :=
                                  \<lparr>Ship = Some (lobby s1), Store = store fl,
                                   proto = Some (minigameProto fl),
                                   impl = Some (Constructor (minigameProto fl) now)\<rparr>),
                                nextContext := Suc ctx\<rparr>;
                        s3 = setFlag f (\<lambda>fl. fl\<lparr>minigame := Some ctx\<rparr>) s2;
                        s4 = fold (setActivity (Some (InMinigame ctx))) (lockedPlayers a) s3;
                        s5 = setFlag f (\<lambda>fl. fl\<lparr>activation := None\<rparr>) s4
                    in MinigameContext_Start ctx now s5)))"

text \<open>\<open>rand.Int()\<close>: the next random number.\<close>

definition randInt :: "ship \<Rightarrow> nat \<times> ship" where
  "randInt s = (rands s 0, s\<lparr>rands := (\<lambda>n. rands s (Suc n))\<rparr>)"

text \<open>
  \<open>slices.DeleteFunc(players, func(pl) { return pl == p || !f.needsPlayer(pl) })\<close>, for
  the flag as it is after \<open>p\<close> was added.
\<close>

fun deleteUnneeded :: "ship \<Rightarrow> flag \<Rightarrow> player_ref \<Rightarrow> player_ref list \<Rightarrow> player_ref list option" where
  "deleteUnneeded s fl p [] = Some []"
| "deleteUnneeded s fl p (pl # pls) =
     (if pl = p then deleteUnneeded s fl p pls
      else
        case needsPlayer s fl pl of
          None \<Rightarrow> None
        | Some False \<Rightarrow> deleteUnneeded s fl p pls
        | Some True \<Rightarrow> map_option (Cons pl) (deleteUnneeded s fl p pls))"

lemma deleteUnneeded_length:
  "deleteUnneeded s fl p ps = Some ps' \<Longrightarrow>
     length ps' \<le> length ps \<and> (p \<in> set ps \<longrightarrow> length ps' < length ps)"
proof (induction ps arbitrary: ps')
  case Nil
  then show ?case by simp
next
  case (Cons pl pls)
  show ?case
  proof (cases "pl = p")
    case True
    with Cons show ?thesis by fastforce
  next
    case False
    with Cons show ?thesis
      by (fastforce split: option.splits bool.splits)
  qed
qed

text \<open>The loop \<open>for len(players) > 0\<close> of \<open>addPlayersToFlags\<close>, for one flag.\<close>

function addPlayersToFlags_players :: "string \<Rightarrow> player_ref list \<Rightarrow> ship \<Rightarrow> ship option" where
  "addPlayersToFlags_players f ps s =
     (if ps = [] then Some s
      else
        case addPlayerToFlag f (ps ! (fst (randInt s) mod length ps)) (snd (randInt s)) of
          None \<Rightarrow> None
        | Some s1 \<Rightarrow>
            (case getFlag s1 f of
               None \<Rightarrow> None
             | Some fl \<Rightarrow>
                 (case deleteUnneeded s1 fl (ps ! (fst (randInt s) mod length ps)) ps of
                    None \<Rightarrow> None
                  | Some ps' \<Rightarrow> addPlayersToFlags_players f ps' s1)))"
  by pat_completeness auto
termination
proof (relation "measure (\<lambda>(f, ps, s). length ps)")
  show "wf (measure (\<lambda>(f, ps, s). length ps))"
    by simp
next
  fix f :: string and ps :: "player_ref list" and s s1 :: ship and fl ps'
  assume ne: "ps \<noteq> []"
    and del: "deleteUnneeded s1 fl (ps ! (fst (randInt s) mod length ps)) ps = Some ps'"
  have "ps ! (fst (randInt s) mod length ps) \<in> set ps"
    using ne by simp
  with deleteUnneeded_length [OF del]
  show "((f, ps', s1), (f, ps, s)) \<in> measure (\<lambda>(f, ps, s). length ps)"
    by simp
qed

declare addPlayersToFlags_players.simps [simp del]

fun addPlayersToFlags_loop :: "(string \<times> player_ref list) list \<Rightarrow> time \<Rightarrow> ship \<Rightarrow> ship option" where
  "addPlayersToFlags_loop [] now s = Some s"
| "addPlayersToFlags_loop ((f, ps) # rest) now s =
     (case addPlayersToFlags_players f ps s of
        None \<Rightarrow> None
      | Some s1 \<Rightarrow>
          (case getFlag s1 f of
             None \<Rightarrow> None
           | Some fl \<Rightarrow>
               (case hasAllPlayers fl of
                  None \<Rightarrow> None
                | Some True \<Rightarrow>
                    (case startMinigameForFlag f now s1 of
                       None \<Rightarrow> None
                     | Some s2 \<Rightarrow> addPlayersToFlags_loop rest now s2)
                | Some False \<Rightarrow> addPlayersToFlags_loop rest now s1)))"

definition addPlayersToFlags :: "time \<Rightarrow> ship \<Rightarrow> ship option" where
  "addPlayersToFlags now s =
     (if isEndgame s then Some s
      else
        case findEligiblePlayersForFlags s of
          None \<Rightarrow> None
        | Some flagsAndEligiblePlayers \<Rightarrow> addPlayersToFlags_loop flagsAndEligiblePlayers now s)"

subsection \<open>Cooldown, notifications and the end of the game\<close>

definition startCooldown :: "string \<Rightarrow> time \<Rightarrow> ship \<Rightarrow> ship option" where
  "startCooldown f now s =
     (case idForFlag s f of
        None \<Rightarrow> None
      | Some flagID \<Rightarrow>
          (case getFlag s f of
             None \<Rightarrow> None
           | Some fl \<Rightarrow>
               (case TickingTimer (now + Cooldown (minigameProto fl)) (CooldownTick f) (CooldownEnd f)
                       (scheduler s) of
                  (t, rt) \<Rightarrow> Some (setFlag f (\<lambda>fl. fl\<lparr>cooldown := t\<rparr>) (s\<lparr>scheduler := rt\<rparr>)))))"

definition notifyMinigameResult :: "ship \<Rightarrow> ship option" where
  "notifyMinigameResult s = SendPlayers (ForAllShipPlayers s) ''ship_minigame_finished'' s"

definition notifyPeerLeft :: "ship \<Rightarrow> ship option" where
  "notifyPeerLeft s = SendPlayers (ForAllPlayers (lobbies s (lobby s))) ''ship_peer_left'' s"

text \<open>
  \<open>end\<close>: with players left in the lobby, the message \<open>ship_game_end\<close> carries the
  individual scores and the team scores (\<open>teamScores\<close>), and every player is moved back to
  the lobby activity.
\<close>

definition end' :: "ship \<Rightarrow> ship option" where
  "end' s =
     (if PlayerCount (lobbies s (lobby s)) = 0 then Some s
      else
        case GetActivity s (ID (lobbies s (lobby s))) of
          None \<Rightarrow> None
        | Some lobbyAct \<Rightarrow>
            forEach (\<lambda>p s'. SendPlayer p ''ship_game_end''
                               (setActivity (Some (InLobbyActivity lobbyAct)) p s'))
                    (ForAllPlayers (lobbies s (lobby s))) s)"

definition tryEnd :: "ship \<Rightarrow> ship option" where
  "tryEnd s =
     (if areAnyMinigamesOngoing s then Some s
      else if list_ex (\<lambda>p. Activity (players s p) \<noteq> Some (InShip (lobby s)))
                      (ForAllPlayers (lobbies s (lobby s)))
      then None
      else end' s)"

definition enterEndgame :: "time \<Rightarrow> ship \<Rightarrow> ship option" where
  "enterEndgame now s =
     (case Stop (timer s) now (scheduler s) of
        Blocks \<Rightarrow> None
      | Returns rt \<Rightarrow>
          (case clearForEndgame now (s\<lparr>isEndgame := True, scheduler := rt\<rparr>) of
             None \<Rightarrow> None
           | Some s1 \<Rightarrow>
               (case SendPlayers (ForAllPlayers (lobbies s1 (lobby s1))) ''ship_endgame'' s1 of
                  None \<Rightarrow> None
                | Some s2 \<Rightarrow> tryEnd s2)))"

definition tryEnterEndgame :: "time \<Rightarrow> ship \<Rightarrow> ship option" where
  "tryEnterEndgame now s = (if isEndgame s then tryEnd s else enterEndgame now s)"

definition triggerEndgame :: "string option \<Rightarrow> time \<Rightarrow> ship \<Rightarrow> ship option" where
  "triggerEndgame nameOfLeaver now s =
     (case nameOfLeaver of
        None \<Rightarrow> tryEnterEndgame now s
      | Some name \<Rightarrow>
          (case notifyPeerLeft s of
             None \<Rightarrow> None
           | Some s1 \<Rightarrow> tryEnterEndgame now s1))"

definition removePlayer :: "player_ref \<Rightarrow> time \<Rightarrow> ship \<Rightarrow> ship option" where
  "removePlayer player now s =
     (if Activity (players s player) \<noteq> Some (InShip (lobby s)) then None
      else
        case Lobby_RemovePlayer (lobby s) player
               (setActivity None player
                  (s\<lparr>pm := (pm s)(player := None),
                     individualScores := (individualScores s)(player := None)\<rparr>)) of
          None \<Rightarrow> None
        | Some s1 \<Rightarrow> triggerEndgame (Some (Name (players s1 player))) now s1)"

subsection \<open>Coming back from a minigame\<close>

definition spreadPlayers :: "Position \<Rightarrow> real \<Rightarrow> player_ref list \<Rightarrow> ship \<Rightarrow> ship" where
  "spreadPlayers around dist' ps s =
     (case ps of
        [] \<Rightarrow> s
      | [p] \<Rightarrow> s\<lparr>pm := (pm s)(p \<mapsto> \<lparr>X = X around, Y = Y around + dist'\<rparr>)\<rparr>
      | _ \<Rightarrow>
          let startAngle = 0.55 * pi;
              endAngle = 2 * pi - startAngle;
              offset = \<lparr>X = 0, Y = - dist'\<rparr>;
              angleSpacing = (endAngle - startAngle) / real (length ps - 1)
          in s\<lparr>pm := fold (\<lambda>(i, p) m.
                          let rotOffset = RotateAboutOrigin offset (startAngle + real i * angleSpacing)
                          in m(p \<mapsto> \<lparr>X = X around + X rotOffset, Y = Y around + Y rotOffset\<rparr>))
                        (enumerate 0 ps) (pm s)\<rparr>)"

text \<open>
  \<open>welcomePlayerBack\<close> reads the ship peers of the player and the participants of every
  ongoing minigame (which panics on an invalid context) for the payload, and sends
  \<open>ship_welcome_back\<close> to the player and \<open>ship_welcome_back_peer\<close> to the ship peers.
\<close>

definition welcomePlayerBack :: "player_ref \<Rightarrow> ship \<Rightarrow> ship option" where
  "welcomePlayerBack p s =
     (case ForAllShipPeers s p of
        None \<Rightarrow> None
      | Some peers \<Rightarrow>
          if list_ex (\<lambda>(f, fl). case minigame fl of
                                   None \<Rightarrow> False
                                 | Some c \<Rightarrow> MinigameContext_ForAllPlayers s c = None) (flags s)
          then None
          else
            case SendPlayer p ''ship_welcome_back'' s of
              None \<Rightarrow> None
            | Some s1 \<Rightarrow> SendPlayers peers ''ship_welcome_back_peer'' s1)"

definition endMinigame :: "ctx_ref \<Rightarrow> MinigameResult \<Rightarrow> time \<Rightarrow> ship \<Rightarrow> ship option" where
  "endMinigame ctx result now s =
     (case flagForMinigame s ctx of None \<Rightarrow> None | Some f \<Rightarrow>
      case idForFlag s f of None \<Rightarrow> None | Some flagID \<Rightarrow>
      case (if \<not> isEndgame s then startCooldown f now s else Some s) of None \<Rightarrow> None | Some s1 \<Rightarrow>
      case notifyMinigameResult
             (case winningTeam result of
                None \<Rightarrow> s1
              | Some t \<Rightarrow> setFlag f (\<lambda>fl. fl\<lparr>owner := Some t\<rparr>) s1) of None \<Rightarrow> None | Some s2 \<Rightarrow>
      case getFlag s2 f of None \<Rightarrow> None | Some fl \<Rightarrow>
      case MinigameContext_ForAllPlayers (setFlag f (\<lambda>fl. fl\<lparr>minigame := None\<rparr>) s2) ctx of
        None \<Rightarrow> None | Some participants \<Rightarrow>
      let s3 = setFlag f (\<lambda>fl. fl\<lparr>minigame := None\<rparr>) s2;
          individualWorth = IndividualWorth (minigameProto fl);
          connectedParticipants = filter (\<lambda>p. Some p \<noteq> disconnected result) participants;
          s4 = s3\<lparr>individualScores :=
                    fold (\<lambda>p m. if Team (players s3 p) = winningTeam result
                                then m(p \<mapsto> (case m p of None \<Rightarrow> 0 | Some v \<Rightarrow> v) + individualWorth)
                                else m)
                         connectedParticipants (individualScores s3)\<rparr>;
          shuffled = shuffle s4 connectedParticipants;
          s5 = spreadPlayers (pos fl) 20 shuffled s4
      in
      case forEach (\<lambda>p s'. welcomePlayerBack p (setActivity (Some (InShip (lobby s'))) p s'))
                   shuffled s5 of None \<Rightarrow> None | Some s6 \<Rightarrow>
      case (if HasEnded (timer (invalidate ctx s6)) now
            then triggerEndgame None now (invalidate ctx s6)
            else Some (invalidate ctx s6)) of None \<Rightarrow> None | Some s7 \<Rightarrow>
      (case disconnected result of
         Some d \<Rightarrow> removePlayer d now (setActivity (Some (InShip (lobby s7))) d s7)
       | None \<Rightarrow> addPlayersToFlags now s7))"

definition MinigameContext_End :: "ctx_ref \<Rightarrow> MinigameResult \<Rightarrow> time \<Rightarrow> ship \<Rightarrow> ship option" where
  "MinigameContext_End ctx result now s =
     (case ensureValid s ctx of
        None \<Rightarrow> None
      | Some u \<Rightarrow> endMinigame ctx result now s)"

subsection \<open>Activating a flag\<close>

fun findNearestFlag_loop :: "Position \<Rightarrow> (string \<times> flag) list \<Rightarrow> (string \<times> real) option \<Rightarrow> (string \<times> real) option" where
  "findNearestFlag_loop playerPos [] nearest = nearest"
| "findNearestFlag_loop playerPos ((f, fl) # rest) nearest =
     (if playerFlagReach * playerFlagReach < DistSq playerPos (pos fl)
      then findNearestFlag_loop playerPos rest nearest
      else
        case nearest of
          None \<Rightarrow> findNearestFlag_loop playerPos rest (Some (f, DistSq playerPos (pos fl)))
        | Some (n, nearestDistSq) \<Rightarrow>
            if DistSq playerPos (pos fl) < nearestDistSq
            then findNearestFlag_loop playerPos rest (Some (f, DistSq playerPos (pos fl)))
            else findNearestFlag_loop playerPos rest nearest)"

definition findNearestFlag :: "ship \<Rightarrow> player_ref \<Rightarrow> string option" where
  "findNearestFlag s player = map_option fst (findNearestFlag_loop (position s player) (flags s) None)"

definition activateFlag :: "player_ref \<Rightarrow> string \<Rightarrow> time \<Rightarrow> ship \<Rightarrow> ship option" where
  "activateFlag player f now s =
     (case idForFlag s f of
        None \<Rightarrow> None
      | Some flagID \<Rightarrow>
          (case getFlag s f of
             None \<Rightarrow> None
           | Some fl \<Rightarrow>
               if PlayerCount' (minigameProto fl) = 1
               then startMinigameForFlag f now
                      (setFlag f (\<lambda>fl. fl\<lparr>activation :=
                         Some \<lparr>startTime = now, lockedPlayers = [player]\<rparr>\<rparr>) s)
               else
                 case addPlayerToFlag f player
                        (setFlag f (\<lambda>fl. fl\<lparr>activation :=
                           Some \<lparr>startTime = now, lockedPlayers = []\<rparr>\<rparr>) s) of
                   None \<Rightarrow> None
                 | Some s1 \<Rightarrow> addPlayersToFlags now s1))"

definition tryActivateFlag :: "player_ref \<Rightarrow> time \<Rightarrow> ship \<Rightarrow> ship option" where
  "tryActivateFlag player now s =
     (if isEndgame s then SendPlayer player ''ship_no_flags_in_endgame'' s
      else
        case findNearestFlag s player of
          None \<Rightarrow> SendPlayer player ''ship_no_flags_in_reach'' s
        | Some f \<Rightarrow>
            if flagForPlayer s player \<noteq> None then SendPlayer player ''ship_player_locked'' s
            else
              case idForFlag s f of
                None \<Rightarrow> None
              | Some flagID \<Rightarrow>
                  (case getFlag s f of
                     None \<Rightarrow> None
                   | Some fl \<Rightarrow>
                       if owner fl = Team (players s player)
                       then SendPlayer player ''ship_flag_already_captured'' s
                       else if minigame fl \<noteq> None
                       then SendPlayer player ''ship_flag_in_use'' s
                       else if \<not> HasEnded (cooldown fl) now
                       then SendPlayer player ''ship_flag_cooling_down'' s
                       else if isActivated fl
                       then SendPlayer player ''ship_flag_already_activated'' s
                       else activateFlag player f now s))"

subsection \<open>The position manager and the ship's message handler\<close>

definition msgPrefix :: string where
  "msgPrefix = ''ship_mov_''"

definition TrimPrefix :: "string \<Rightarrow> string \<Rightarrow> string" where
  "TrimPrefix str prefix =
     (if take (length prefix) str = prefix then drop (length prefix) str else str)"

definition notifyNewPosition :: "player_ref \<Rightarrow> ship \<Rightarrow> ship option" where
  "notifyNewPosition player s =
     (case ForAllActivityPeers s player of
        None \<Rightarrow> None
      | Some peers \<Rightarrow> SendPlayers peers (msgPrefix @ ''peer_position_update'') s)"

definition doSetPosition :: "player_ref \<Rightarrow> Position \<Rightarrow> ship \<Rightarrow> ship option" where
  "doSetPosition player newPos s = notifyNewPosition player (s\<lparr>pm := (pm s)(player \<mapsto> newPos)\<rparr>)"

definition doPositionUpdate :: "player_ref \<Rightarrow> Message \<Rightarrow> ship \<Rightarrow> ship option" where
  "doPositionUpdate player message s =
     (case GetNumber message ''x'' of
        Inl err \<Rightarrow> SendPlayer player (msgPrefix @ ''position_update_bad_x_error'') s
      | Inr x \<Rightarrow>
          (case GetNumber message ''y'' of
             Inl err \<Rightarrow> SendPlayer player (msgPrefix @ ''position_update_bad_y_error'') s
           | Inr y \<Rightarrow> doSetPosition player \<lparr>X = x, Y = y\<rparr> s))"

text \<open>
  The handlers return the state with the error they return (\<open>None\<close> for nil).
  \<open>PositionManager.HandleMessage\<close> returns \<open>handled\<close> first.
\<close>

definition PositionManager_HandleMessage ::
  "player_ref \<Rightarrow> Message \<Rightarrow> ship \<Rightarrow> (bool \<times> error option \<times> ship) option" where
  "PositionManager_HandleMessage player message s =
     (let typ = TrimPrefix (Type message) msgPrefix
      in if typ = Type message then Some (False, None, s)
         else if typ \<noteq> ''position_update''
         then Some (True, Some (Error ''position manager does not recognise the type''), s)
         else map_option (\<lambda>s'. (True, None, s')) (doPositionUpdate player message s))"

definition HandleMessage :: "player_ref \<Rightarrow> Message \<Rightarrow> time \<Rightarrow> ship \<Rightarrow> (error option \<times> ship) option" where
  "HandleMessage player message now s =
     (if Type message = ''ship_flag_activate''
      then map_option (Pair None) (tryActivateFlag player now s)
      else if Type message = ''lobby_bye''
      then map_option (Pair None) (removePlayer player now s)
      else
        case PositionManager_HandleMessage player message s of
          None \<Rightarrow> None
        | Some (handled, err, s1) \<Rightarrow>
            if handled then Some (err, s1)
            else map_option (Pair None) (SendPlayer player ''ship_unknown_message_type_error'' s1))"

text \<open>
  \<open>LobbyActivity.HandleMessage\<close>. Its three handlers \<open>doTeamChange\<close>, \<open>doReadyChange\<close> and
  \<open>doBye\<close> are parameters: what is modelled is the dispatch on the type.
\<close>

definition LobbyActivity_HandleMessage ::
  "(player_ref \<Rightarrow> Message \<Rightarrow> 'a world_scheme \<Rightarrow> (error option \<times> 'a world_scheme) option) \<Rightarrow>
   (player_ref \<Rightarrow> Message \<Rightarrow> 'a world_scheme \<Rightarrow> (error option \<times> 'a world_scheme) option) \<Rightarrow>
   (player_ref \<Rightarrow> 'a world_scheme \<Rightarrow> (error option \<times> 'a world_scheme) option) \<Rightarrow>
   player_ref \<Rightarrow> Message \<Rightarrow> 'a world_scheme \<Rightarrow> (error option \<times> 'a world_scheme) option" where
  "LobbyActivity_HandleMessage doTeamChange doReadyChange doBye player message w =
     (if Type message = ''lobby_team_change'' then doTeamChange player message w
      else if Type message = ''lobby_ready_change'' then doReadyChange player message w
      else if Type message = ''lobby_bye'' then doBye player w
      else map_option (Pair None) (SendPlayer player ''lobby_unrecognised_message_type'' w))"

subsection \<open>The click race (click_race.go): the result of a single-player game\<close>

definition SinglePlayerWin :: "'a world_scheme \<Rightarrow> player_ref \<Rightarrow> MinigameResult" where
  "SinglePlayerWin w player = \<lparr>winningTeam = Team (players w player), disconnected = None\<rparr>"

definition SinglePlayerLoss :: MinigameResult where
  "SinglePlayerLoss = \<lparr>winningTeam = None, disconnected = None\<rparr>"

definition endSp :: "state \<Rightarrow> ctx_ref \<Rightarrow> time \<Rightarrow> ship \<Rightarrow> ship option" where
  "endSp st ctx now s =
     (case ExactlyOnePlayer s ctx of
        None \<Rightarrow> None
      | Some player \<Rightarrow>
          (case Store (contexts s ctx) of
             None \<Rightarrow> None
           | Some threshold \<Rightarrow>
               (case scoreStores s threshold of
                  OtherStore \<Rightarrow> None
                | IntStore t \<Rightarrow>
                    let score = (case reportedScores st player of None \<Rightarrow> 0 | Some v \<Rightarrow> v)
                    in if t < score
                       then MinigameContext_End ctx (SinglePlayerWin s player) now
                              (s\<lparr>scoreStores := (scoreStores s)(threshold := IntStore score)\<rparr>)
                       else MinigameContext_End ctx SinglePlayerLoss now s)))"

subsection \<open>Well-formed states and example states of the ship\<close>

text \<open>
  What the map that \<open>findEligiblePlayersForFlags\<close> builds holds of the players \<open>Q\<close> looked
  at so far: every player listed under a flag is in \<open>Q\<close>, is not locked, and that flag
  is the one \<open>oldestFlagNeedingPlayer\<close> returns for the player; and every player of \<open>Q\<close>
  who is not locked and for whom a flag is returned is listed under it.
\<close>

definition placed :: "ship \<Rightarrow> (string \<times> player_ref list) list \<Rightarrow> player_ref set \<Rightarrow> bool" where
  "placed s m Q =
     ((\<forall>(f, ps) \<in> set m. \<forall>q \<in> set ps.
          q \<in> Q \<and> flagForPlayer s q = None \<and> oldestFlagNeedingPlayer s q = Some (Some f))
      \<and> (\<forall>q \<in> Q. \<forall>f. flagForPlayer s q = None \<and> oldestFlagNeedingPlayer s q = Some (Some f)
            \<longrightarrow> (\<exists>ps. (f, ps) \<in> set m \<and> q \<in> set ps)))"

text \<open>
  A ship of the lobby 0 with player 0 (client 0, team 0) and player 1 (client 1, team 1),
  both in the ship, with the flags given. The ship timer ends at time 600 and its
  goroutine is running.
\<close>

definition two_player_ship :: "(string \<times> flag) list \<Rightarrow> ship" where
  "two_player_ship fs =
     \<lparr>clients = (\<lambda>c. \<lparr>Player = Some c\<rparr>),
      players = (\<lambda>p. \<lparr>Team = Some (0, p mod 2), Client = Some p,
                       Activity = Some (InShip 0),
                       Name = (if p = 0 then ''alice'' else ''bob'')\<rparr>),
      lobbies = (\<lambda>l. \<lparr>Teams = (\<lambda>i. if i = 0 then [0] else [1]), ID = ''1234''\<rparr>),
      activities = [''1234'' \<mapsto> 0],
      out = [],
      nextPlayer = 2,
      nextLobby = 1,
      lobby = 0,
      flags = fs,
      pm = Map.empty,
      individualScores = [0 \<mapsto> 0, 1 \<mapsto> 0],
      timer = \<lparr>End = 600, quit = Some 0\<rparr>,
      isEndgame = False,
      scheduler = \<lparr>goroutines = (\<lambda>c. Exited)(0 := Ticking ShipTick ShipTimerEnd),
                   event = [], nextChan = 1\<rparr>,
      contexts = (\<lambda>c. \<lparr>Ship = None, Store = None, proto = None, impl = None\<rparr>),
      nextContext = 0,
      scoreStores = (\<lambda>r. IntStore 0),
      nextStore = 1,
      rands = (\<lambda>n. 0),
      shuffle = (\<lambda>ps. ps)\<rparr>"

text \<open>A prototype of a one-against-one minigame outside the model, and flags for it.\<close>

definition Proto1v1 :: MinigamePrototype where
  "Proto1v1 =
     \<lparr>PName = ''rps_1v1'', PlayerCount' = 2, Worth = 1, Cooldown = 10000000000,
      StoreCtor = None, Constructor = (\<lambda>now. OtherImpl)\<rparr>"

definition recruiting_flag :: "real \<Rightarrow> time \<Rightarrow> player_ref list \<Rightarrow> flag" where
  "recruiting_flag x t ps =
     \<lparr>pos = \<lparr>X = x, Y = 0\<rparr>, minigameProto = Proto1v1, minigame = None, store = None,
      owner = None, cooldown = \<lparr>End = 0, quit = None\<rparr>,
      activation = Some \<lparr>startTime = t, lockedPlayers = ps\<rparr>\<rparr>"

text \<open>
  The flag \<open>idfk\<close> of the single-player click race, idle, with its store at reference 0
  holding the threshold 0; and the ship with that flag, player 0 standing at the flag.
\<close>

definition click_race_flag :: flag where
  "click_race_flag =
     \<lparr>pos = \<lparr>X = 192, Y = - 208\<rparr>, minigameProto = ProtoSp, minigame = None, store = Some 0,
      owner = None, cooldown = \<lparr>End = 0, quit = None\<rparr>, activation = None\<rparr>"

definition click_race_ship :: ship where
  "click_race_ship =
     (two_player_ship [(''idfk'', click_race_flag)])\<lparr>pm := [0 \<mapsto> \<lparr>X = 192, Y = - 208\<rparr>, 1 \<mapsto> \<lparr>X = 0, Y = - 400\<rparr>]\<rparr>"

text \<open>
  The stores of a ship: the heap of stores, and which store every flag has.
\<close>

definition storage :: "ship \<Rightarrow> (store_ref \<Rightarrow> ScoreStore) \<times> (string \<times> store_ref option) list" where
  "storage s = (scoreStores s, map (\<lambda>(f, fl). (f, store fl)) (flags s))"

text \<open>
  The ship \<open>click_race_ship\<close> with player 0 in the click race that the context 0 holds,
  started at time 10.
\<close>

definition click_race_context :: ship where
  "click_race_context =
     click_race_ship
       \<lparr>players := (players click_race_ship)
            (0 := (players click_race_ship 0)\<lparr>Activity := Some (InMinigame 0)\<rparr>),
        flags := [(''idfk'', click_race_flag\<lparr>minigame := Some 0\<rparr>)],
        contexts := (contexts click_race_ship)
            (0 := \<lparr>Ship = Some 0, Store = Some 0, proto = Some ProtoSp,
                   impl = Some (ClickRace (newState 10))\<rparr>),
        nextContext := 1\<rparr>"

section \<open>Messages to a minigame\<close>

subsection \<open>The click race (click_race.go): reports\<close>

definition MultiplayerResult :: "team_ref option \<Rightarrow> MinigameResult" where
  "MultiplayerResult winner = \<lparr>winningTeam = winner, disconnected = None\<rparr>"

definition GetTeam :: "ship \<Rightarrow> ctx_ref \<Rightarrow> nat \<Rightarrow> team_ref option" where
  "GetTeam s ctx index = map_option (\<lambda>l. (l, index)) (Ship (contexts s ctx))"

text \<open>
  The loop of \<open>endMp\<close> that adds the score of every player to the total of the player's
  team; a player without a score counts 0, and a player without a team panics.
\<close>

fun endMp_scores :: "ship \<Rightarrow> state \<Rightarrow> player_ref list \<Rightarrow> int \<times> int \<Rightarrow> (int \<times> int) option" where
  "endMp_scores s st [] scores = Some scores"
| "endMp_scores s st (p # ps) (t0, t1) =
     (case Team (players s p) of
        None \<Rightarrow> None
      | Some team \<Rightarrow>
          let score = (case reportedScores st p of None \<Rightarrow> 0 | Some v \<Rightarrow> v)
          in if Index team = 0 then endMp_scores s st ps (t0 + score, t1)
             else endMp_scores s st ps (t0, t1 + score))"

definition endMp :: "state \<Rightarrow> ctx_ref \<Rightarrow> time \<Rightarrow> ship \<Rightarrow> ship option" where
  "endMp st ctx now s =
     (case Store (contexts s ctx) of
        Some r \<Rightarrow> None
      | None \<Rightarrow>
          (case MinigameContext_ForAllPlayers s ctx of
             None \<Rightarrow> None
           | Some ps \<Rightarrow>
               (case endMp_scores s st ps (0, 0) of
                  None \<Rightarrow> None
                | Some (t0, t1) \<Rightarrow>
                    if t0 = t1 then MinigameContext_End ctx (MultiplayerResult None) now s
                    else if t1 < t0
                    then (case GetTeam s ctx 0 of
                            None \<Rightarrow> None
                          | Some team \<Rightarrow> MinigameContext_End ctx (MultiplayerResult (Some team)) now s)
                    else (case GetTeam s ctx 1 of
                            None \<Rightarrow> None
                          | Some team \<Rightarrow> MinigameContext_End ctx (MultiplayerResult (Some team)) now s))))"

text \<open>\<open>tryEnd\<close> of the click race; \<open>len(s.reportedScores)\<close> is the number of keys.\<close>

definition ClickRace_tryEnd :: "state \<Rightarrow> ctx_ref \<Rightarrow> time \<Rightarrow> ship \<Rightarrow> ship option" where
  "ClickRace_tryEnd st ctx now s =
     (case proto (contexts s ctx) of
        None \<Rightarrow> None
      | Some pr \<Rightarrow>
          if int (card (dom (reportedScores st))) < PlayerCount' pr then Some s
          else if PlayerCount' pr = 1 then endSp st ctx now s
          else endMp st ctx now s)"

text \<open>
  \<open>Handle\<close> of the click race, for the state \<open>st\<close> that the context \<open>ctx\<close> holds. The
  score it retains is written to the state in the context before \<open>tryEnd\<close> is called.
\<close>

definition ClickRace_Handle ::
  "state \<Rightarrow> ctx_ref \<Rightarrow> player_ref \<Rightarrow> Message \<Rightarrow> time \<Rightarrow> ship \<Rightarrow> (error option \<times> ship) option" where
  "ClickRace_Handle st ctx player message now s =
     (if Type message \<noteq> ''cps_report''
      then map_option (Pair None) (SendPlayer player ''cps_unknown_message_type_error'' s)
      else if \<not> HasEnded (gameTimer st) now
      then map_option (Pair None) (SendPlayer player ''cps_game_not_over_error'' s)
      else if reportedScores st player \<noteq> None
      then map_option (Pair None) (SendPlayer player ''cps_report_player_has_score_error'' s)
      else
        case GetInt message ''clicks'' of
          Inl err \<Rightarrow> map_option (Pair None) (SendPlayer player ''cps_report_bad_clicks_value_error'' s)
        | Inr score \<Rightarrow>
            let st' = st\<lparr>reportedScores := (reportedScores st)(player \<mapsto> score)\<rparr>;
                s1 = s\<lparr>contexts := (contexts s)(ctx := (contexts s ctx)\<lparr>impl := Some (ClickRace st')\<rparr>)\<rparr>
            in map_option (Pair None) (ClickRace_tryEnd st' ctx now s1))"

subsection \<open>The minigame context as an activity (team.go)\<close>

text \<open>
  \<open>MinigameContext.HandleMessage\<close>. \<open>ctx.impl\<close> is an interface value: its methods \<open>Handle\<close>
  and \<open>HandleDisconnection\<close> are the parameters \<open>impl_Handle\<close> and
  \<open>impl_HandleDisconnection\<close>. The two ship messages are logged and dropped.
\<close>

definition MinigameContext_HandleMessage ::
  "(ctx_ref \<Rightarrow> player_ref \<Rightarrow> Message \<Rightarrow> time \<Rightarrow> ship \<Rightarrow> (error option \<times> ship) option) \<Rightarrow>
   (ctx_ref \<Rightarrow> player_ref \<Rightarrow> time \<Rightarrow> ship \<Rightarrow> (error option \<times> ship) option) \<Rightarrow>
   ctx_ref \<Rightarrow> player_ref \<Rightarrow> Message \<Rightarrow> time \<Rightarrow> ship \<Rightarrow> (error option \<times> ship) option" where
  "MinigameContext_HandleMessage impl_Handle impl_HandleDisconnection ctx player message now s =
     (case ensureValid s ctx of
        None \<Rightarrow> None
      | Some u \<Rightarrow>
          if Type message = ''lobby_bye'' then impl_HandleDisconnection ctx player now s
          else if Type message = ''ship_flag_activate'' \<or> Type message = ''ship_mov_position_update''
          then Some (None, s)
          else impl_Handle ctx player message now s)"

section \<open>Activating a flag: well-formed ships\<close>

text \<open>The players of the lobby of the ship.\<close>

definition members :: "ship \<Rightarrow> player_ref list" where
  "members s = ForAllPlayers (lobbies s (lobby s))"

text \<open>
  The click race for one player reads its threshold from an integer store when it starts:
  a flag of it has such a store.
\<close>

definition start_ok :: "ship \<Rightarrow> time \<Rightarrow> flag \<Rightarrow> bool" where
  "start_ok s now fl =
     (case Constructor (minigameProto fl) now of
        ClickRace st \<Rightarrow>
          PlayerCount' (minigameProto fl) = 1 \<longrightarrow>
            (case store fl of
               None \<Rightarrow> False
             | Some r \<Rightarrow> (case scoreStores s r of IntStore v \<Rightarrow> True | OtherStore \<Rightarrow> False))
      | OtherImpl \<Rightarrow> True)"

text \<open>
  What holds of a ship between two messages: the flags have distinct IDs; every player of
  the lobby has a client and is on a team of this lobby; a flag of the single-player click
  race has its integer store; and the players locked to a flag are players of the lobby.
\<close>

definition ship_ok :: "ship \<Rightarrow> time \<Rightarrow> bool" where
  "ship_ok s now =
     (distinct (map fst (flags s))
      \<and> (\<forall>p \<in> set (members s).
            Client (players s p) \<noteq> None \<and> map_option fst (Team (players s p)) = Some (lobby s))
      \<and> (\<forall>(f, fl) \<in> set (flags s).
            start_ok s now fl
            \<and> (case activation fl of
                  None \<Rightarrow> True
                | Some a \<Rightarrow> set (lockedPlayers a) \<subseteq> set (members s))))"







section \<open>Theorems: messages\<close>

lemma copied_without_type:
  "payload m ''type'' = None \<Longrightarrow>
     ([''type'' \<mapsto> VString (Type m)] ++ payload m)(''type'' := None) = payload m"
  by (rule ext) (simp add: map_add_def split: option.split)











section \<open>Theorems: timers\<close>

lemma Stop_after_End: "End t < now \<Longrightarrow> Stop t now rt = Returns rt"
  by (simp add: Stop_def StopWith_def HasEnded_def)

lemma Stop_ExpiredTimer: "Stop (ExpiredTimer t) now rt = Returns rt"
  by (simp add: Stop_def StopWith_def HasEnded_def ExpiredTimer_def)

text \<open>
  Claim C2, on the code: a ticking timer that ends at time 100 is stopped at time 50 and
  again at time 60. The first \<open>Stop\<close> returns, with the goroutine gone and nothing else
  changed. The caller's timer is what it was: it has not ended and was not stopped, so the
  second \<open>Stop\<close> sends on \<open>quit\<close> again and blocks.
\<close>

theorem Stop_twice_blocks:
  "TickingTimer 100 ''tick'' ''end'' \<lparr>goroutines = (\<lambda>c. Exited), event = [], nextChan = 0\<rparr>
     = (\<lparr>End = 100, quit = Some 0\<rparr>,
        \<lparr>goroutines = (\<lambda>c. Exited)(0 := Ticking ''tick'' ''end''), event = [], nextChan = 1\<rparr>)
   \<and> Stop \<lparr>End = 100, quit = Some 0\<rparr> 50
        \<lparr>goroutines = (\<lambda>c. Exited)(0 := Ticking ''tick'' ''end''), event = [], nextChan = 1\<rparr>
     = Returns \<lparr>goroutines = (\<lambda>c. Exited :: string goroutine), event = [], nextChan = 1\<rparr>
   \<and> \<not> HasEnded \<lparr>End = 100, quit = Some 0\<rparr> 60
   \<and> \<not> WasStopped \<lparr>End = 100, quit = Some 0\<rparr>
   \<and> Stop \<lparr>End = 100, quit = Some 0\<rparr> 60
        \<lparr>goroutines = (\<lambda>c. Exited :: string goroutine), event = [], nextChan = 1\<rparr>
     = Blocks"
  by (simp add: TickingTimer_def Stop_def StopWith_def HasEnded_def WasStopped_def send_quit_def
      fun_eq_iff)

section \<open>Theorems: lobbies\<close>

lemma SendPlayers_connected:
  "connected w ps \<Longrightarrow>
   SendPlayers ps typ w = Some (w\<lparr>out := out w @ map (\<lambda>q. (the (Client (players w q)), typ)) ps\<rparr>)"
proof (induction ps arbitrary: w)
  case Nil
  show ?case by simp
next
  case (Cons p ps)
  then obtain c where c: "Client (players w p) = Some c" by (auto simp: connected_def)
  have "connected (Send c typ w) ps"
    using Cons.prems by (simp add: Send_def connected_def)
  from Cons.IH [OF this] show ?case using c
    by (simp add: SendPlayer_def Send_def)
qed

lemma PlayerCount_set_add:
  "length (set_add p xs) \<le> Suc (length xs)"
  by (simp add: set_add_def)

lemma HandleJoinRequest_full:
  "Player (clients w client) = None \<Longrightarrow> 5 < PlayerCount (lobbies w l) \<Longrightarrow>
   HandleJoinRequest l client usernames w = Some (Send client ''lobby_full'' w)"
  by (simp add: HandleJoinRequest_def)

lemma AddClient_Some:
  assumes "Player (clients w client) = None"
    and "generatePlayerName (buildPlayerNameSet w l) usernames = Some name"
  shows "AddClient l client usernames w =
     Some (w\<lparr>players := (players w)(nextPlayer w := \<lparr>Team = Some (l, if length (Teams (lobbies w l) 0) \<le> length (Teams (lobbies w l) 1) then 0 else 1),
                 Client = Some client, Activity = None, Name = name\<rparr>),
              clients := (clients w)(client := (clients w client)\<lparr>Player := Some (nextPlayer w)\<rparr>),
              nextPlayer := Suc (nextPlayer w),
              lobbies := (lobbies w)(l := (lobbies w l)\<lparr>Teams := (Teams (lobbies w l))
                 ((if length (Teams (lobbies w l) 0) \<le> length (Teams (lobbies w l) 1) then 0 else 1)
                   := set_add (nextPlayer w) (Teams (lobbies w l) (if length (Teams (lobbies w l) 0) \<le> length (Teams (lobbies w l) 1) then 0 else 1)))\<rparr>)\<rparr>)"
  using assms by (simp add: AddClient_def Team_AddPlayer_def Let_def)

lemma SendPlayer_out:
  "SendPlayer p typ w = Some w' \<Longrightarrow> \<exists>msgs. w' = w\<lparr>out := out w @ msgs\<rparr>"
  by (auto simp: SendPlayer_def Send_def split: option.splits)

lemma SendPlayers_out:
  "SendPlayers ps typ w = Some w' \<Longrightarrow> \<exists>msgs. w' = w\<lparr>out := out w @ msgs\<rparr>"
proof (induction ps arbitrary: w)
  case Nil
  then show ?case by (auto intro: exI [of _ "[]"])
next
  case (Cons p ps)
  then obtain w1 where w1: "SendPlayer p typ w = Some w1" and rest: "SendPlayers ps typ w1 = Some w'"
    by (auto split: option.splits)
  from SendPlayer_out [OF w1] obtain m1 where m1: "w1 = w\<lparr>out := out w @ m1\<rparr>" by blast
  from Cons.IH [OF rest] obtain m2 where "w' = w1\<lparr>out := out w1 @ m2\<rparr>" by blast
  with m1 have "w' = w\<lparr>out := out w @ (m1 @ m2)\<rparr>" by simp
  then show ?case by blast
qed

lemma notifyPlayerJoin_out:
  "notifyPlayerJoin p w = Some w' \<Longrightarrow> \<exists>msgs. w' = w\<lparr>out := out w @ msgs\<rparr>"
proof -
  assume a: "notifyPlayerJoin p w = Some w'"
  then obtain w1 where w1: "notifyJoinee p w = Some w1" and r: "notifyJoineePeers p w1 = Some w'"
    by (auto simp: notifyPlayerJoin_def split: option.splits)
  from w1 obtain m1 where m1: "w1 = w\<lparr>out := out w @ m1\<rparr>"
    by (auto simp: notifyJoinee_def split: option.splits dest: SendPlayer_out)
  from r obtain m2 where "w' = w1\<lparr>out := out w1 @ m2\<rparr>"
    by (auto simp: notifyJoineePeers_def split: option.splits dest: SendPlayers_out)
  with m1 have "w' = w\<lparr>out := out w @ (m1 @ m2)\<rparr>" by simp
  then show ?thesis by blast
qed

lemma AddClient_PlayerCount:
  assumes "AddClient l client usernames w = Some w1"
  shows "PlayerCount (lobbies w1 l') \<le> (if l' = l then Suc (PlayerCount (lobbies w l)) else PlayerCount (lobbies w l'))"
  using assms PlayerCount_set_add [of "nextPlayer w" "Teams (lobbies w l) 0"]
    PlayerCount_set_add [of "nextPlayer w" "Teams (lobbies w l) 1"]
  by (auto simp: AddClient_def Team_AddPlayer_def Let_def PlayerCount_def
      split: option.splits if_splits)

lemma HandleJoinRequest_PlayerCount:
  assumes "HandleJoinRequest l client usernames w = Some w'"
    and "PlayerCount (lobbies w l') \<le> 6"
  shows "PlayerCount (lobbies w' l') \<le> 6"
proof (cases "Player (clients w client) \<noteq> None \<or> 5 < PlayerCount (lobbies w l)")
  case True
  then have "lobbies w' = lobbies w"
    using assms(1) by (auto simp: HandleJoinRequest_def Send_def split: if_splits)
  then show ?thesis using assms(2) by simp
next
  case False
  then obtain w1 p where w1: "AddClient l client usernames w = Some w1"
    and n: "notifyPlayerJoin p (w1\<lparr>players := (players w1)(p := (players w1 p)\<lparr>Activity := Some (InLobbyActivity l)\<rparr>)\<rparr>) = Some w'"
    using assms(1) by (auto simp: HandleJoinRequest_def split: option.splits if_splits)
  from notifyPlayerJoin_out [OF n] have "lobbies w' = lobbies w1" by auto
  moreover have "PlayerCount (lobbies w1 l') \<le> 6"
    using AddClient_PlayerCount [OF w1, of l'] False assms(2) by (auto split: if_splits)
  ultimately show ?thesis by simp
qed

lemma HandleJoinRequest_accepted:
  assumes noplayer: "Player (clients w client) = None"
    and room: "PlayerCount (lobbies w l) \<le> 5"
    and conn: "connected w (ForAllPlayers (lobbies w l))"
    and name: "generatePlayerName (buildPlayerNameSet w l) usernames = Some name"
    and i: "i = (if length (Teams (lobbies w l) 0) \<le> length (Teams (lobbies w l) 1) then 0 else 1)"
  shows "\<exists>w'. HandleJoinRequest l client usernames w = Some w'
           \<and> Player (clients w' client) = Some (nextPlayer w)
           \<and> Team (players w' (nextPlayer w)) = Some (l, i)
           \<and> Teams (lobbies w' l) i = set_add (nextPlayer w) (Teams (lobbies w l) i)
           \<and> Teams (lobbies w' l) (1 - i) = Teams (lobbies w l) (1 - i)"
proof -
  define p where "p = nextPlayer w"
  define w2 where "w2 = w\<lparr>players := (players w)(p := \<lparr>Team = Some (l, i),
                 Client = Some client, Activity = Some (InLobbyActivity l), Name = name\<rparr>),
              clients := (clients w)(client := (clients w client)\<lparr>Player := Some p\<rparr>),
              nextPlayer := Suc p,
              lobbies := (lobbies w)(l := (lobbies w l)\<lparr>Teams := (Teams (lobbies w l))
                 (i := set_add p (Teams (lobbies w l) i))\<rparr>)\<rparr>"
  have step: "HandleJoinRequest l client usernames w = notifyPlayerJoin p w2"
    using noplayer room AddClient_Some [OF noplayer name]
    by (auto simp: HandleJoinRequest_def w2_def p_def i
        intro!: arg_cong2 [where f = notifyPlayerJoin] world.equality)
  have members: "set (ForAllPlayers (lobbies w2 l)) \<subseteq> insert p (set (ForAllPlayers (lobbies w l)))"
    by (auto simp: w2_def ForAllPlayers_def set_add_def i)
  have conn2: "connected w2 (filter (\<lambda>q. q \<noteq> p) (ForAllPlayers (lobbies w2 l)))"
    using conn members unfolding connected_def list_all_iff
    by (auto simp: w2_def)
  have "notifyJoinee p w2 = Some (Send client ''lobby_welcome'' w2)"
    by (simp add: notifyJoinee_def SendPlayer_def w2_def)
  moreover have "connected (Send client ''lobby_welcome'' w2) (filter (\<lambda>q. q \<noteq> p) (ForAllPlayers (lobbies w2 l)))"
    using conn2 by (simp add: connected_def Send_def)
  then have "\<exists>w'. notifyJoineePeers p (Send client ''lobby_welcome'' w2) = Some w'
                 \<and> (\<exists>msgs. w' = (Send client ''lobby_welcome'' w2)\<lparr>out := msgs\<rparr>)"
    using SendPlayers_connected [of "Send client ''lobby_welcome'' w2"
        "filter (\<lambda>q. q \<noteq> p) (ForAllPlayers (lobbies w2 l))" "''lobby_peer_joined''"]
    by (auto simp: notifyJoineePeers_def ForAllLobbyPeers_def Send_def w2_def)
  ultimately obtain w' msgs where r: "notifyPlayerJoin p w2 = Some w'"
    and w': "w' = (Send client ''lobby_welcome'' w2)\<lparr>out := msgs\<rparr>"
    by (auto simp: notifyPlayerJoin_def)
  have "Player (clients w' client) = Some p" "Team (players w' p) = Some (l, i)"
    "Teams (lobbies w' l) i = set_add p (Teams (lobbies w l) i)"
    "Teams (lobbies w' l) (1 - i) = Teams (lobbies w l) (1 - i)"
    using w' by (auto simp: Send_def w2_def i)
  with r step show ?thesis unfolding p_def by auto
qed

text \<open>
  Claim C9, as stated, fails: a join request from a client that already has a player, for a
  lobby that holds six players, is answered with \<open>client_already_in_lobby_error\<close>, not
  with \<open>lobby_full\<close>.
\<close>

theorem HandleJoinRequest_full_counterexample:
  "PlayerCount (lobbies full_lobby_world 0) = 6
   \<and> HandleJoinRequest 0 0 [] full_lobby_world
       = Some (full_lobby_world\<lparr>out := [(0, ''client_already_in_lobby_error'')]\<rparr>)
   \<and> HandleJoinRequest 0 0 [] full_lobby_world
       \<noteq> Some (full_lobby_world\<lparr>out := [(0, ''lobby_full'')]\<rparr>)"
  by (simp add: full_lobby_world_def PlayerCount_def HandleJoinRequest_def Send_def)

text \<open>
  Claim C9, amended. A join request from a client that has no player yet, for a lobby
  that holds more than five players, is answered with \<open>lobby_full\<close> and changes nothing
  else. No join request takes a lobby that holds at most six players above six. A join
  request from a client without a player, for a lobby with at most five players whose
  members all have clients, is accepted as soon as the name loop finds a free name: the
  new player is on team 0 if team 0 has at most as many members as team 1, and on team 1
  otherwise, and the other team is unchanged.
\<close>

theorem HandleJoinRequest_capacity:
  "(Player (clients w client) = None \<and> 5 < PlayerCount (lobbies w l) \<longrightarrow>
      HandleJoinRequest l client usernames w = Some (w\<lparr>out := out w @ [(client, ''lobby_full'')]\<rparr>))
   \<and> (\<forall>w' l'. HandleJoinRequest l client usernames w = Some w' \<and> PlayerCount (lobbies w l') \<le> 6 \<longrightarrow>
         PlayerCount (lobbies w' l') \<le> 6)
   \<and> (Player (clients w client) = None \<and> PlayerCount (lobbies w l) \<le> 5
        \<and> connected w (ForAllPlayers (lobbies w l))
        \<and> generatePlayerName (buildPlayerNameSet w l) usernames = Some name \<longrightarrow>
        (\<exists>w'. HandleJoinRequest l client usernames w = Some w'
           \<and> Player (clients w' client) = Some (nextPlayer w)
           \<and> Team (players w' (nextPlayer w))
               = Some (l, if length (Teams (lobbies w l) 0) \<le> length (Teams (lobbies w l) 1) then 0 else 1)
           \<and> nextPlayer w \<in> set (Teams (lobbies w' l)
                 (if length (Teams (lobbies w l) 0) \<le> length (Teams (lobbies w l) 1) then 0 else 1))
           \<and> Teams (lobbies w' l)
                 (if length (Teams (lobbies w l) 0) \<le> length (Teams (lobbies w l) 1) then 1 else 0)
               = Teams (lobbies w l)
                 (if length (Teams (lobbies w l) 0) \<le> length (Teams (lobbies w l) 1) then 1 else 0)))"
proof (intro conjI impI allI)
  assume "Player (clients w client) = None \<and> 5 < PlayerCount (lobbies w l)"
  then show "HandleJoinRequest l client usernames w = Some (w\<lparr>out := out w @ [(client, ''lobby_full'')]\<rparr>)"
    using HandleJoinRequest_full [of w client l usernames] by (simp add: Send_def)
next
  fix w' l'
  assume "HandleJoinRequest l client usernames w = Some w' \<and> PlayerCount (lobbies w l') \<le> 6"
  then show "PlayerCount (lobbies w' l') \<le> 6"
    using HandleJoinRequest_PlayerCount by blast
next
  assume a: "Player (clients w client) = None \<and> PlayerCount (lobbies w l) \<le> 5
        \<and> connected w (ForAllPlayers (lobbies w l))
        \<and> generatePlayerName (buildPlayerNameSet w l) usernames = Some name"
  define i :: nat where "i = (if length (Teams (lobbies w l) 0) \<le> length (Teams (lobbies w l) 1) then 0 else 1)"
  have i1: "1 - i = (if length (Teams (lobbies w l) 0) \<le> length (Teams (lobbies w l) 1) then 1 else 0)"
    by (simp add: i_def)
  from a HandleJoinRequest_accepted [of w client l usernames name i] i_def
  obtain w' where "HandleJoinRequest l client usernames w = Some w'"
           "Player (clients w' client) = Some (nextPlayer w)"
           "Team (players w' (nextPlayer w)) = Some (l, i)"
           "Teams (lobbies w' l) i = set_add (nextPlayer w) (Teams (lobbies w l) i)"
           "Teams (lobbies w' l) (1 - i) = Teams (lobbies w l) (1 - i)"
    by blast
  then show "\<exists>w'. HandleJoinRequest l client usernames w = Some w'
           \<and> Player (clients w' client) = Some (nextPlayer w)
           \<and> Team (players w' (nextPlayer w))
               = Some (l, if length (Teams (lobbies w l) 0) \<le> length (Teams (lobbies w l) 1) then 0 else 1)
           \<and> nextPlayer w \<in> set (Teams (lobbies w' l)
                 (if length (Teams (lobbies w l) 0) \<le> length (Teams (lobbies w l) 1) then 0 else 1))
           \<and> Teams (lobbies w' l)
                 (if length (Teams (lobbies w l) 0) \<le> length (Teams (lobbies w l) 1) then 1 else 0)
               = Teams (lobbies w l)
                 (if length (Teams (lobbies w l) 0) \<le> length (Teams (lobbies w l) 1) then 1 else 0)"
    unfolding i1 [symmetric] i_def [symmetric] by (auto simp: set_add_def)
qed

theorem HandleJoinRequest_capacity_witness:
  "HandleJoinRequest 0 7 [] full_lobby_world
     = Some (full_lobby_world\<lparr>out := [(7, ''lobby_full'')]\<rparr>)
   \<and> (\<exists>w'. HandleJoinRequest 0 7 [''name'', ''other''] small_lobby_world = Some w'
          \<and> Player (clients w' 7) = Some 1
          \<and> Team (players w' 1) = Some (0, 1)
          \<and> 1 \<in> set (Teams (lobbies w' 0) 1)
          \<and> Teams (lobbies w' 0) 0 = [0])"
  using HandleJoinRequest_capacity [of full_lobby_world 7 0 "[]"]
    HandleJoinRequest_capacity [of small_lobby_world 7 0 "[''name'', ''other'']" "''other''"]
  by (simp add: full_lobby_world_def small_lobby_world_def PlayerCount_def connected_def
      ForAllPlayers_def buildPlayerNameSet_def)

text \<open>
  Claim C8, first half: when \<open>Lobby.RemovePlayer\<close> leaves the lobby without players, the
  manager has no activity under the lobby's ID any more; if the manager's keys are the
  IDs of the lobbies they lead to, no key leads to the lobby.
\<close>

lemma Lobby_RemovePlayer_forgets:
  assumes "Lobby_RemovePlayer l player w = Some w'"
    and "PlayerCount (lobbies w' l) = 0"
  shows "activities w' (ID (lobbies w' l)) = None"
    and "(\<And>k l'. activities w k = Some l' \<Longrightarrow> ID (lobbies w l') = k) \<Longrightarrow> activities w' k \<noteq> Some l"
proof -
  obtain team c w1 where team: "Team (players w player) = Some team" "fst team = l"
    and w1: "Team_RemovePlayer team player w = Some w1"
    and c: "Client (players w1 player) = Some c"
    using assms(1) by (auto simp: Lobby_RemovePlayer_def split: option.splits if_splits)
  define w2 where "w2 = w1\<lparr>clients := (clients w1)(c := (clients w1 c)\<lparr>Player := None\<rparr>),
                           players := (players w1)(player := (players w1 player)\<lparr>Client := None\<rparr>)\<rparr>"
  have w': "w' = (if PlayerCount (lobbies w2 l) = 0 then forget l w2 else w2)"
    using assms(1) team w1 c by (auto simp: Lobby_RemovePlayer_def w2_def Let_def split: if_splits)
  have same: "lobbies w' = lobbies w2"
    using w' by (simp add: forget_def)
  then have forgot: "w' = forget l w2"
    using w' assms(2) by simp
  show "activities w' (ID (lobbies w' l)) = None"
    using forgot by (simp add: forget_def)
  have acts: "activities w2 = activities w" and ids: "ID (lobbies w2 l') = ID (lobbies w l')" for l'
    using w1 by (auto simp: w2_def Team_RemovePlayer_def Let_def split: if_splits)
  show "activities w' k \<noteq> Some l" if keys: "\<And>k l'. activities w k = Some l' \<Longrightarrow> ID (lobbies w l') = k"
    using forgot keys [of k l] acts ids [of l] by (auto simp: forget_def)
qed

text \<open>
  Claim C8, second half, on the code: client 0 is in lobby 0 with its player and sends
  \<open>lobby_create\<close>. \<open>Client.Receive\<close> routes the message to \<open>HandleLobbyCreate\<close> whether or
  not the client has a player. The manager registers a new lobby under the code
  \<open>5678\<close>, the join is refused with \<open>client_already_in_lobby_error\<close>, and the new lobby
  stays registered with no player.
\<close>

theorem HandleLobbyCreate_leaves_empty_lobby:
  "(case HandleLobbyCreate 0 ''5678'' [] small_lobby_world of
      None \<Rightarrow> False
    | Some w' \<Rightarrow>
        GetActivity w' ''5678'' = Some 1
        \<and> PlayerCount (lobbies w' 1) = 0
        \<and> out w' = [(0, ''client_already_in_lobby_error'')])"
  by (simp add: HandleLobbyCreate_def createLobby_def HandleJoinRequest_def Send_def
      small_lobby_world_def GetActivity_def PlayerCount_def)

section \<open>Theorems: the oldest flag that needs a player\<close>

lemma oldest_loop:
  assumes "case oldest of None \<Rightarrow> True
           | Some (o_id, o_fl) \<Rightarrow> \<exists>oa. activation o_fl = Some oa \<and> needsPlayer s o_fl p = Some True"
  shows "\<exists>r. oldestFlagNeedingPlayer_loop s p fs oldest = Some r \<and>
     (case r of
        None \<Rightarrow> oldest = None \<and>
                (\<forall>(g, gl) \<in> set fs. activation gl \<noteq> None \<longrightarrow> needsPlayer s gl p \<noteq> Some True)
      | Some (f, fl) \<Rightarrow>
          (Some (f, fl) = oldest \<or> (f, fl) \<in> set fs) \<and>
          (\<exists>a. activation fl = Some a \<and> needsPlayer s fl p = Some True \<and>
             (\<forall>(o_id, o_fl) \<in> set_option oldest. \<forall>oa. activation o_fl = Some oa \<longrightarrow> startTime a \<le> startTime oa) \<and>
             (\<forall>(g, gl) \<in> set fs. \<forall>b. activation gl = Some b \<and> needsPlayer s gl p = Some True
                  \<longrightarrow> startTime a \<le> startTime b)))"
  using assms
proof (induction fs arbitrary: oldest)
  case Nil
  then show ?case by (cases oldest) auto
next
  case (Cons x fs)
  obtain f fl where x: "x = (f, fl)" by (cases x)
  show ?case
  proof (cases "activation fl")
    case None
    from Cons.IH [OF Cons.prems] obtain r where
      r: "oldestFlagNeedingPlayer_loop s p fs oldest = Some r" and
      R: "(case r of
        None \<Rightarrow> oldest = None \<and>
                (\<forall>(g, gl) \<in> set fs. activation gl \<noteq> None \<longrightarrow> needsPlayer s gl p \<noteq> Some True)
      | Some (f, fl) \<Rightarrow>
          (Some (f, fl) = oldest \<or> (f, fl) \<in> set fs) \<and>
          (\<exists>a. activation fl = Some a \<and> needsPlayer s fl p = Some True \<and>
             (\<forall>(o_id, o_fl) \<in> set_option oldest. \<forall>oa. activation o_fl = Some oa \<longrightarrow> startTime a \<le> startTime oa) \<and>
             (\<forall>(g, gl) \<in> set fs. \<forall>b. activation gl = Some b \<and> needsPlayer s gl p = Some True
                  \<longrightarrow> startTime a \<le> startTime b)))" by blast
    show ?thesis
      using r R None x by (auto split: option.splits prod.splits)
  next
    case (Some a)
    then obtain n where n: "needsPlayer s fl p = Some n"
      by (auto simp: needsPlayer_def Let_def)
    define better where "better = (case oldest of None \<Rightarrow> True
        | Some (o_id, o_fl) \<Rightarrow> (case activation o_fl of None \<Rightarrow> False | Some oa \<Rightarrow> startTime a < startTime oa))"
    define oldest' where "oldest' = (if better \<and> n then Some (f, fl) else oldest)"
    have step: "oldestFlagNeedingPlayer_loop s p (x # fs) oldest = oldestFlagNeedingPlayer_loop s p fs oldest'"
      using Some n Cons.prems x
      by (cases oldest) (auto simp: better_def oldest'_def split: option.splits bool.splits)
    have pre: "case oldest' of None \<Rightarrow> True
           | Some (o_id, o_fl) \<Rightarrow> \<exists>oa. activation o_fl = Some oa \<and> needsPlayer s o_fl p = Some True"
      using Cons.prems Some n by (auto simp: oldest'_def)
    from Cons.IH [OF pre] obtain r where
      r: "oldestFlagNeedingPlayer_loop s p fs oldest' = Some r" and
      R: "(case r of
        None \<Rightarrow> oldest' = None \<and>
                (\<forall>(g, gl) \<in> set fs. activation gl \<noteq> None \<longrightarrow> needsPlayer s gl p \<noteq> Some True)
      | Some (f, fl) \<Rightarrow>
          (Some (f, fl) = oldest' \<or> (f, fl) \<in> set fs) \<and>
          (\<exists>a. activation fl = Some a \<and> needsPlayer s fl p = Some True \<and>
             (\<forall>(o_id, o_fl) \<in> set_option oldest'. \<forall>oa. activation o_fl = Some oa \<longrightarrow> startTime a \<le> startTime oa) \<and>
             (\<forall>(g, gl) \<in> set fs. \<forall>b. activation gl = Some b \<and> needsPlayer s gl p = Some True
                  \<longrightarrow> startTime a \<le> startTime b)))" by blast
    show ?thesis
    proof (cases r)
      case None
      with R have o': "oldest' = None" and rest: "\<forall>(g, gl) \<in> set fs. activation gl \<noteq> None \<longrightarrow> needsPlayer s gl p \<noteq> Some True"
        by auto
      from o' have "oldest = None" "\<not> n"
        by (auto simp: oldest'_def better_def split: if_splits)
      then show ?thesis using step r None rest n x by auto
    next
      case (Some gg)
      obtain g gl where gg: "gg = (g, gl)" by (cases gg)
      from R Some gg obtain b where
        mem: "Some (g, gl) = oldest' \<or> (g, gl) \<in> set fs" and
        b: "activation gl = Some b" "needsPlayer s gl p = Some True" and
        le_o: "\<forall>(o_id, o_fl) \<in> set_option oldest'. \<forall>oa. activation o_fl = Some oa \<longrightarrow> startTime b \<le> startTime oa" and
        le_r: "\<forall>(h, hl) \<in> set fs. \<forall>c. activation hl = Some c \<and> needsPlayer s hl p = Some True
                  \<longrightarrow> startTime b \<le> startTime c"
        by auto
      have m1: "Some (g, gl) = oldest \<or> (g, gl) \<in> set (x # fs)"
        using mem x by (auto simp: oldest'_def split: if_splits)
      have m2: "\<forall>(o_id, o_fl) \<in> set_option oldest. \<forall>oa. activation o_fl = Some oa \<longrightarrow> startTime b \<le> startTime oa"
        using le_o \<open>activation fl = Some a\<close>
        by (cases oldest) (auto simp: oldest'_def better_def split: if_splits option.splits)
      have m3: "\<forall>c. activation fl = Some c \<and> needsPlayer s fl p = Some True \<longrightarrow> startTime b \<le> startTime c"
        using le_o \<open>activation fl = Some a\<close> n Cons.prems
        by (cases oldest) (auto simp: oldest'_def better_def split: if_splits option.splits)
      show ?thesis
        using step r Some gg b m1 m2 m3 le_r x by auto
    qed
  qed
qed

lemma oldestFlagNeedingPlayer_returns: "\<exists>r. oldestFlagNeedingPlayer s p = Some r"
  using oldest_loop [where oldest = None and s = s and p = p and fs = "flags s"] by (auto simp: oldestFlagNeedingPlayer_def)

lemma map_entry_keeps:
  "(k, v) \<in> set al \<Longrightarrow> \<exists>v'. (k, v') \<in> set (AList.map_entry f (\<lambda>l. l @ [p]) al) \<and> set v \<subseteq> set v'"
  by (induction al) (auto split: if_splits)

lemma map_entry_adds:
  "f \<in> fst ` set al \<Longrightarrow> \<exists>v'. (f, v') \<in> set (AList.map_entry f (\<lambda>l. l @ [p]) al) \<and> p \<in> set v'"
  by (induction al) (auto split: if_splits)

lemma map_entry_from:
  "(k, v') \<in> set (AList.map_entry f (\<lambda>l. l @ [p]) al) \<Longrightarrow>
     (k, v') \<in> set al \<or> (k = f \<and> (\<exists>v. (f, v) \<in> set al \<and> v' = v @ [p]))"
  by (induction al) (auto split: if_splits)

lemma findEligiblePlayersForFlags_loop_placed:
  assumes "placed s acc Q"
  shows "\<exists>m. findEligiblePlayersForFlags_loop s qs acc = Some m \<and> placed s m (Q \<union> set qs)"
  using assms
proof (induction qs arbitrary: acc Q)
  case Nil
  then show ?case by simp
next
  case (Cons q qs)
  obtain r where r: "oldestFlagNeedingPlayer s q = Some r"
    using oldestFlagNeedingPlayer_returns by blast
  define acc' where "acc' =
    (if flagForPlayer s q \<noteq> None then acc
     else case r of None \<Rightarrow> acc
          | Some f \<Rightarrow> if f \<in> fst ` set acc then AList.map_entry f (\<lambda>l. l @ [q]) acc else acc @ [(f, [q])])"
  have step: "findEligiblePlayersForFlags_loop s (q # qs) acc = findEligiblePlayersForFlags_loop s qs acc'"
    using r by (auto simp: acc'_def split: option.splits)
  have "placed s acc' (insert q Q)"
  proof (cases "flagForPlayer s q \<noteq> None \<or> r = None")
    case True
    then have "acc' = acc" by (auto simp: acc'_def)
    then show ?thesis using Cons.prems True r by (auto simp: placed_def)
  next
    case False
    then obtain f where f: "r = Some f" and unl: "flagForPlayer s q = None" by auto
    show ?thesis
    proof (cases "f \<in> fst ` set acc")
      case True
      then have a: "acc' = AList.map_entry f (\<lambda>l. l @ [q]) acc"
        using f unl by (simp add: acc'_def)
      have sound: "\<forall>(g, ps) \<in> set acc'. \<forall>x \<in> set ps.
          x \<in> insert q Q \<and> flagForPlayer s x = None \<and> oldestFlagNeedingPlayer s x = Some (Some g)"
      proof (clarify)
        fix g ps x assume m: "(g, ps) \<in> set acc'" and x: "x \<in> set ps"
        from map_entry_from [OF m [unfolded a]] x Cons.prems r f unl
        show "x \<in> insert q Q \<and> flagForPlayer s x = None \<and> oldestFlagNeedingPlayer s x = Some (Some g)"
          by (fastforce simp: placed_def)
      qed
      have complete: "\<forall>x \<in> insert q Q. \<forall>g. flagForPlayer s x = None \<and> oldestFlagNeedingPlayer s x = Some (Some g)
            \<longrightarrow> (\<exists>ps. (g, ps) \<in> set acc' \<and> x \<in> set ps)"
      proof (clarify)
        fix x g assume x: "x \<in> insert q Q" and u: "flagForPlayer s x = None"
          and o: "oldestFlagNeedingPlayer s x = Some (Some g)"
        show "\<exists>ps. (g, ps) \<in> set acc' \<and> x \<in> set ps"
        proof (cases "x = q")
          case True
          with o r f have "g = f" by simp
          with map_entry_adds [OF \<open>f \<in> fst ` set acc\<close>, of q] True a show ?thesis by auto
        next
          case False
          with x have "x \<in> Q" by simp
          with Cons.prems u o have "\<exists>ps. (g, ps) \<in> set acc \<and> x \<in> set ps"
            unfolding placed_def by blast
          then obtain ps where "(g, ps) \<in> set acc" "x \<in> set ps" by blast
          with map_entry_keeps [of g ps acc f q] a show ?thesis by auto
        qed
      qed
      from sound complete show ?thesis by (simp add: placed_def)
    next
      case False
      then have a: "acc' = acc @ [(f, [q])]"
        using f unl by (simp add: acc'_def)
      show ?thesis using Cons.prems r f unl unfolding a placed_def by fastforce
    qed
  qed
  from Cons.IH [OF this] step show ?case by simp
qed

text \<open>
  Claim C6. \<open>oldestFlagNeedingPlayer\<close> returns (it does not panic); it returns nil only if
  no activated flag needs the player, and otherwise a flag of the ship that is activated,
  needs the player, and whose \<open>startTime\<close> is at most that of every activated flag that
  needs the player. \<open>findEligiblePlayersForFlags\<close> returns, and lists a player under a flag
  exactly if the player is in the ship, is locked to no flag, and that flag is the one
  \<open>oldestFlagNeedingPlayer\<close> returns for the player.
\<close>

theorem findEligiblePlayersForFlags_earliest:
  "(\<exists>r. oldestFlagNeedingPlayer s p = Some r \<and>
     (case r of
        None \<Rightarrow> \<forall>(g, gl) \<in> set (flags s). activation gl \<noteq> None \<longrightarrow> needsPlayer s gl p \<noteq> Some True
      | Some f \<Rightarrow>
          \<exists>fl a. (f, fl) \<in> set (flags s) \<and> activation fl = Some a \<and> needsPlayer s fl p = Some True \<and>
             (\<forall>(g, gl) \<in> set (flags s). \<forall>b. activation gl = Some b \<and> needsPlayer s gl p = Some True
                  \<longrightarrow> startTime a \<le> startTime b)))
   \<and> (\<exists>m. findEligiblePlayersForFlags s = Some m \<and>
        (\<forall>(f, ps) \<in> set m. \<forall>q \<in> set ps.
            q \<in> set (ForAllShipPlayers s) \<and> flagForPlayer s q = None
            \<and> oldestFlagNeedingPlayer s q = Some (Some f))
        \<and> (\<forall>q \<in> set (ForAllShipPlayers s). \<forall>f.
              flagForPlayer s q = None \<and> oldestFlagNeedingPlayer s q = Some (Some f)
              \<longrightarrow> (\<exists>ps. (f, ps) \<in> set m \<and> q \<in> set ps)))"
proof
  from oldest_loop [where oldest = None and s = s and p = p and fs = "flags s"] obtain r where
    r: "oldestFlagNeedingPlayer_loop s p (flags s) None = Some r" and
    R: "(case r of
        None \<Rightarrow> (\<forall>(g, gl) \<in> set (flags s). activation gl \<noteq> None \<longrightarrow> needsPlayer s gl p \<noteq> Some True)
      | Some (f, fl) \<Rightarrow>
          ((f, fl) \<in> set (flags s)) \<and>
          (\<exists>a. activation fl = Some a \<and> needsPlayer s fl p = Some True \<and>
             (\<forall>(g, gl) \<in> set (flags s). \<forall>b. activation gl = Some b \<and> needsPlayer s gl p = Some True
                  \<longrightarrow> startTime a \<le> startTime b)))"
    by (fastforce split: option.splits)
  show "\<exists>r. oldestFlagNeedingPlayer s p = Some r \<and>
     (case r of
        None \<Rightarrow> \<forall>(g, gl) \<in> set (flags s). activation gl \<noteq> None \<longrightarrow> needsPlayer s gl p \<noteq> Some True
      | Some f \<Rightarrow>
          \<exists>fl a. (f, fl) \<in> set (flags s) \<and> activation fl = Some a \<and> needsPlayer s fl p = Some True \<and>
             (\<forall>(g, gl) \<in> set (flags s). \<forall>b. activation gl = Some b \<and> needsPlayer s gl p = Some True
                  \<longrightarrow> startTime a \<le> startTime b))"
  proof (cases r)
    case None
    with r R show ?thesis by (simp add: oldestFlagNeedingPlayer_def)
  next
    case (Some x)
    obtain f fl where "x = (f, fl)" by (cases x)
    with Some r R show ?thesis
      by (auto simp: oldestFlagNeedingPlayer_def intro!: exI [of _ fl])
  qed
next
  have "placed s [] {}" by (simp add: placed_def)
  from findEligiblePlayersForFlags_loop_placed [OF this, of "ForAllShipPlayers s"]
  show "\<exists>m. findEligiblePlayersForFlags s = Some m \<and>
        (\<forall>(f, ps) \<in> set m. \<forall>q \<in> set ps.
            q \<in> set (ForAllShipPlayers s) \<and> flagForPlayer s q = None
            \<and> oldestFlagNeedingPlayer s q = Some (Some f))
        \<and> (\<forall>q \<in> set (ForAllShipPlayers s). \<forall>f.
              flagForPlayer s q = None \<and> oldestFlagNeedingPlayer s q = Some (Some f)
              \<longrightarrow> (\<exists>ps. (f, ps) \<in> set m \<and> q \<in> set ps))"
    by (simp add: findEligiblePlayersForFlags_def placed_def)
qed

text \<open>
  Two flags recruit a player of team 1: \<open>late\<close>, activated at time 5 by player 0, and
  \<open>early\<close>, activated at time 3 by an earlier player of team 0. Player 1 is listed under
  \<open>early\<close>.
\<close>

theorem findEligiblePlayersForFlags_earliest_witness:
  "oldestFlagNeedingPlayer
      (two_player_ship [(''late'', recruiting_flag 0 5 [0]), (''early'', recruiting_flag 192 3 [2])]) 1
     = Some (Some ''early'')
   \<and> findEligiblePlayersForFlags
      (two_player_ship [(''late'', recruiting_flag 0 5 [0]), (''early'', recruiting_flag 192 3 [2])])
     = Some [(''early'', [1])]"
proof -
  have ev: "oldestFlagNeedingPlayer
      (two_player_ship [(''late'', recruiting_flag 0 5 [0]), (''early'', recruiting_flag 192 3 [2])]) 1
     = Some (Some ''early'')
   \<and> findEligiblePlayersForFlags
      (two_player_ship [(''late'', recruiting_flag 0 5 [0]), (''early'', recruiting_flag 192 3 [2])])
     = Some [(''early'', [1])]"
    by (simp add: oldestFlagNeedingPlayer_def findEligiblePlayersForFlags_def
        two_player_ship_def recruiting_flag_def Proto1v1_def needsPlayer_def TeamSize_def quo_def
        ForAllShipPlayers_def ForAllPlayers_def flagForPlayer_def)
  from findEligiblePlayersForFlags_earliest
         [of "two_player_ship [(''late'', recruiting_flag 0 5 [0]), (''early'', recruiting_flag 192 3 [2])]" 1]
       ev
  show ?thesis by blast
qed

section \<open>Theorems: unrecognised message types\<close>

text \<open>
  Claim C4, as stated, fails: player 0 sends the ship a message of the type
  \<open>ship_mov_jump\<close>. The position manager takes the message as its own, does not know the
  type and returns an error; the ship returns that error, and no reply is sent.
\<close>

theorem HandleMessage_unrecognised_counterexample:
  "HandleMessage 0 \<lparr>Type = ''ship_mov_jump'', payload = Map.empty\<rparr> 10 (two_player_ship [])
     = Some (Some (Error ''position manager does not recognise the type''), two_player_ship [])"
  by (simp add: HandleMessage_def PositionManager_HandleMessage_def TrimPrefix_def msgPrefix_def)

lemma TrimPrefix_same:
  "TrimPrefix str msgPrefix = str \<longleftrightarrow> take (length msgPrefix) str \<noteq> msgPrefix"
proof (cases "take (length msgPrefix) str = msgPrefix")
  case True
  then have "length (take (length msgPrefix) str) = length msgPrefix" by simp
  then have le: "length msgPrefix \<le> length str" by simp
  have pos: "0 < length msgPrefix" by (simp add: msgPrefix_def)
  have "drop (length msgPrefix) str \<noteq> str"
  proof
    assume "drop (length msgPrefix) str = str"
    then have "length (drop (length msgPrefix) str) = length str" by (rule arg_cong)
    then have "length str - length msgPrefix = length str" by (simp only: length_drop)
    with le pos show False by arith
  qed
  with True show ?thesis by (simp add: TrimPrefix_def)
next
  case False
  then show ?thesis by (simp add: TrimPrefix_def)
qed

lemma TrimPrefix_position_update:
  assumes "take (length msgPrefix) str = msgPrefix"
  shows "TrimPrefix str msgPrefix = ''position_update'' \<longleftrightarrow> str = msgPrefix @ ''position_update''"
proof -
  have "take (length msgPrefix) str @ drop (length msgPrefix) str = str"
    by (rule append_take_drop_id)
  then have "msgPrefix @ drop (length msgPrefix) str = str"
    by (simp only: assms)
  then have "drop (length msgPrefix) str = ''position_update'' \<longleftrightarrow> str = msgPrefix @ ''position_update''"
    by (metis same_append_eq)
  with assms show ?thesis by (simp add: TrimPrefix_def)
qed

text \<open>
  Claim C4, amended. A message whose type the activity that receives it does not know,
  from a player with a client.

  \<^item> The ship (the type is none of \<open>ship_flag_activate\<close>, \<open>lobby_bye\<close> and
    \<open>ship_mov_position_update\<close>): if the type does not begin with the position manager's
    prefix \<open>ship_mov_\<close>, the ship sends \<open>ship_unknown_message_type_error\<close> to the player,
    changes nothing else and returns nil; if it does, the ship returns an error and sends
    nothing.
  \<^item> The lobby activity (the type is none of its three): it sends
    \<open>lobby_unrecognised_message_type\<close> and returns nil.
  \<^item> A minigame context: \<open>ship_flag_activate\<close> and \<open>ship_mov_position_update\<close> are dropped,
    nothing is sent and nil is returned; every other type but \<open>lobby_bye\<close> is handed to the
    minigame, and what its \<open>Handle\<close> returns is returned, an error included. The click race
    answers every type but \<open>cps_report\<close> with \<open>cps_unknown_message_type_error\<close> and returns
    nil.
\<close>

theorem HandleMessage_unrecognised:
  "(Type m \<noteq> ''ship_flag_activate'' \<and> Type m \<noteq> ''lobby_bye''
      \<and> Type m \<noteq> msgPrefix @ ''position_update''
      \<and> Client (players s p) = Some c \<longrightarrow>
      (if take (length msgPrefix) (Type m) = msgPrefix
       then \<exists>e. HandleMessage p m now s = Some (Some e, s)
       else HandleMessage p m now s
              = Some (None, s\<lparr>out := out s @ [(c, ''ship_unknown_message_type_error'')]\<rparr>)))
   \<and> (Type m \<noteq> ''lobby_team_change'' \<and> Type m \<noteq> ''lobby_ready_change'' \<and> Type m \<noteq> ''lobby_bye''
      \<and> Client (players w p) = Some c \<longrightarrow>
      LobbyActivity_HandleMessage doTeamChange doReadyChange doBye p m w
        = Some (None, w\<lparr>out := out w @ [(c, ''lobby_unrecognised_message_type'')]\<rparr>))
   \<and> (ensureValid s ctx \<noteq> None
      \<and> (Type m = ''ship_flag_activate'' \<or> Type m = ''ship_mov_position_update'') \<longrightarrow>
      MinigameContext_HandleMessage impl_Handle impl_HandleDisconnection ctx p m now s = Some (None, s))
   \<and> (ensureValid s ctx \<noteq> None \<and> Type m \<noteq> ''lobby_bye''
      \<and> Type m \<noteq> ''ship_flag_activate'' \<and> Type m \<noteq> ''ship_mov_position_update'' \<longrightarrow>
      MinigameContext_HandleMessage impl_Handle impl_HandleDisconnection ctx p m now s
        = impl_Handle ctx p m now s)
   \<and> (Type m \<noteq> ''cps_report'' \<and> Client (players s p) = Some c \<longrightarrow>
      ClickRace_Handle st ctx p m now s
        = Some (None, s\<lparr>out := out s @ [(c, ''cps_unknown_message_type_error'')]\<rparr>))"
proof -
  have ship: "Type m \<noteq> ''ship_flag_activate'' \<and> Type m \<noteq> ''lobby_bye''
      \<and> Type m \<noteq> msgPrefix @ ''position_update''
      \<and> Client (players s p) = Some c \<longrightarrow>
      (if take (length msgPrefix) (Type m) = msgPrefix
       then \<exists>e. HandleMessage p m now s = Some (Some e, s)
       else HandleMessage p m now s
              = Some (None, s\<lparr>out := out s @ [(c, ''ship_unknown_message_type_error'')]\<rparr>))"
  proof
    assume a: "Type m \<noteq> ''ship_flag_activate'' \<and> Type m \<noteq> ''lobby_bye''
      \<and> Type m \<noteq> msgPrefix @ ''position_update''
      \<and> Client (players s p) = Some c"
    show "if take (length msgPrefix) (Type m) = msgPrefix
       then \<exists>e. HandleMessage p m now s = Some (Some e, s)
       else HandleMessage p m now s
              = Some (None, s\<lparr>out := out s @ [(c, ''ship_unknown_message_type_error'')]\<rparr>)"
    proof (cases "take (length msgPrefix) (Type m) = msgPrefix")
      case True
      with a TrimPrefix_same [of "Type m"] TrimPrefix_position_update [OF True]
      show ?thesis
        by (simp add: HandleMessage_def PositionManager_HandleMessage_def Let_def)
    next
      case False
      with a TrimPrefix_same [of "Type m"]
      show ?thesis
        by (simp add: HandleMessage_def PositionManager_HandleMessage_def Let_def SendPlayer_def Send_def)
    qed
  qed
  have lob: "Type m \<noteq> ''lobby_team_change'' \<and> Type m \<noteq> ''lobby_ready_change'' \<and> Type m \<noteq> ''lobby_bye''
      \<and> Client (players w p) = Some c \<longrightarrow>
      LobbyActivity_HandleMessage doTeamChange doReadyChange doBye p m w
        = Some (None, w\<lparr>out := out w @ [(c, ''lobby_unrecognised_message_type'')]\<rparr>)"
    by (simp add: LobbyActivity_HandleMessage_def SendPlayer_def Send_def)
  have drop: "ensureValid s ctx \<noteq> None
      \<and> (Type m = ''ship_flag_activate'' \<or> Type m = ''ship_mov_position_update'') \<longrightarrow>
      MinigameContext_HandleMessage impl_Handle impl_HandleDisconnection ctx p m now s = Some (None, s)"
    by (auto simp: MinigameContext_HandleMessage_def)
  have pass: "ensureValid s ctx \<noteq> None \<and> Type m \<noteq> ''lobby_bye''
      \<and> Type m \<noteq> ''ship_flag_activate'' \<and> Type m \<noteq> ''ship_mov_position_update'' \<longrightarrow>
      MinigameContext_HandleMessage impl_Handle impl_HandleDisconnection ctx p m now s
        = impl_Handle ctx p m now s"
    by (auto simp: MinigameContext_HandleMessage_def)
  have cps: "Type m \<noteq> ''cps_report'' \<and> Client (players s p) = Some c \<longrightarrow>
      ClickRace_Handle st ctx p m now s
        = Some (None, s\<lparr>out := out s @ [(c, ''cps_unknown_message_type_error'')]\<rparr>)"
    by (simp add: ClickRace_Handle_def SendPlayer_def Send_def)
  from ship lob drop pass cps show ?thesis by (intro conjI)
qed

text \<open>
  The ship and the lobby activity on \<open>ship_dance\<close>, \<open>ship_mov_jump\<close> and \<open>lobby_dance\<close>;
  and a minigame context of the click race with the state \<open>newState 10\<close>, on
  \<open>ship_flag_activate\<close> and on \<open>cps_dance\<close>.
\<close>

theorem HandleMessage_unrecognised_witness:
  "HandleMessage 0 \<lparr>Type = ''ship_dance'', payload = Map.empty\<rparr> 10 (two_player_ship [])
     = Some (None, (two_player_ship [])\<lparr>out := [(0, ''ship_unknown_message_type_error'')]\<rparr>)
   \<and> (\<exists>e. HandleMessage 0 \<lparr>Type = ''ship_mov_jump'', payload = Map.empty\<rparr> 10 (two_player_ship [])
        = Some (Some e, two_player_ship []))
   \<and> LobbyActivity_HandleMessage (\<lambda>p m w. None) (\<lambda>p m w. None) (\<lambda>p w. None) 0
        \<lparr>Type = ''lobby_dance'', payload = Map.empty\<rparr> small_lobby_world
     = Some (None, small_lobby_world\<lparr>out := [(0, ''lobby_unrecognised_message_type'')]\<rparr>)
   \<and> ensureValid click_race_context 0 \<noteq> None
   \<and> MinigameContext_HandleMessage (ClickRace_Handle (newState 10)) (\<lambda>ctx p now s. None) 0 0
        \<lparr>Type = ''ship_flag_activate'', payload = Map.empty\<rparr> 20 click_race_context
     = Some (None, click_race_context)
   \<and> MinigameContext_HandleMessage (ClickRace_Handle (newState 10)) (\<lambda>ctx p now s. None) 0 0
        \<lparr>Type = ''cps_dance'', payload = Map.empty\<rparr> 20 click_race_context
     = Some (None, click_race_context\<lparr>out := [(0, ''cps_unknown_message_type_error'')]\<rparr>)"
proof -
  have c0: "Client (players (two_player_ship []) 0) = Some 0" "out (two_player_ship []) = []"
    "Client (players small_lobby_world 0) = Some 0" "out small_lobby_world = []"
    "Client (players click_race_context 0) = Some 0" "out click_race_context = []"
    by (simp_all add: two_player_ship_def small_lobby_world_def click_race_context_def click_race_ship_def)
  have v: "ensureValid click_race_context 0 \<noteq> None"
    by (simp add: ensureValid_def click_race_context_def)
  have t1: "take (length msgPrefix) ''ship_dance'' \<noteq> msgPrefix"
    "take (length msgPrefix) ''ship_mov_jump'' = msgPrefix"
    "''ship_mov_jump'' \<noteq> msgPrefix @ ''position_update''"
    "''ship_dance'' \<noteq> msgPrefix @ ''position_update''"
    by (simp_all add: msgPrefix_def)
  note inst = HandleMessage_unrecognised [where s = "two_player_ship []" and p = 0 and c = 0 and now = 10
      and w = small_lobby_world
      and doTeamChange = "\<lambda>p m w. None" and doReadyChange = "\<lambda>p m w. None" and doBye = "\<lambda>p w. None"]
  note inst' = HandleMessage_unrecognised [where s = click_race_context and p = 0 and c = 0 and now = 20
      and ctx = 0 and st = "newState 10"
      and impl_Handle = "ClickRace_Handle (newState 10)"
      and impl_HandleDisconnection = "\<lambda>ctx p now s. None"]
  have a: "HandleMessage 0 \<lparr>Type = ''ship_dance'', payload = Map.empty\<rparr> 10 (two_player_ship [])
     = Some (None, (two_player_ship [])\<lparr>out := [(0, ''ship_unknown_message_type_error'')]\<rparr>)"
    using inst [where m = "\<lparr>Type = ''ship_dance'', payload = Map.empty\<rparr>", THEN conjunct1] c0 t1
    by simp
  have b: "\<exists>e. HandleMessage 0 \<lparr>Type = ''ship_mov_jump'', payload = Map.empty\<rparr> 10 (two_player_ship [])
        = Some (Some e, two_player_ship [])"
    using inst [where m = "\<lparr>Type = ''ship_mov_jump'', payload = Map.empty\<rparr>", THEN conjunct1] c0 t1
    by simp
  have c: "LobbyActivity_HandleMessage (\<lambda>p m w. None) (\<lambda>p m w. None) (\<lambda>p w. None) 0
        \<lparr>Type = ''lobby_dance'', payload = Map.empty\<rparr> small_lobby_world
     = Some (None, small_lobby_world\<lparr>out := [(0, ''lobby_unrecognised_message_type'')]\<rparr>)"
    using inst [where m = "\<lparr>Type = ''lobby_dance'', payload = Map.empty\<rparr>",
        THEN conjunct2, THEN conjunct1] c0
    by simp
  have d: "MinigameContext_HandleMessage (ClickRace_Handle (newState 10)) (\<lambda>ctx p now s. None) 0 0
        \<lparr>Type = ''ship_flag_activate'', payload = Map.empty\<rparr> 20 click_race_context
     = Some (None, click_race_context)"
    using inst' [where m = "\<lparr>Type = ''ship_flag_activate'', payload = Map.empty\<rparr>",
        THEN conjunct2, THEN conjunct2, THEN conjunct1] v
    by simp
  have e1: "MinigameContext_HandleMessage (ClickRace_Handle (newState 10)) (\<lambda>ctx p now s. None) 0 0
        \<lparr>Type = ''cps_dance'', payload = Map.empty\<rparr> 20 click_race_context
     = ClickRace_Handle (newState 10) 0 0 \<lparr>Type = ''cps_dance'', payload = Map.empty\<rparr> 20 click_race_context"
    using inst' [where m = "\<lparr>Type = ''cps_dance'', payload = Map.empty\<rparr>",
        THEN conjunct2, THEN conjunct2, THEN conjunct2, THEN conjunct1] v
    by simp
  have e2: "ClickRace_Handle (newState 10) 0 0 \<lparr>Type = ''cps_dance'', payload = Map.empty\<rparr> 20 click_race_context
     = Some (None, click_race_context\<lparr>out := [(0, ''cps_unknown_message_type_error'')]\<rparr>)"
    using inst' [where m = "\<lparr>Type = ''cps_dance'', payload = Map.empty\<rparr>",
        THEN conjunct2, THEN conjunct2, THEN conjunct2, THEN conjunct2] c0
    by simp
  from a b c v d e1 e2 show ?thesis by simp
qed

section \<open>Theorems: the end of the game\<close>

text \<open>The definitions that evaluating the ship on a concrete state unfolds.\<close>

lemmas ship_simps =
  tryActivateFlag_def findNearestFlag_def position_def DistSq_def playerFlagReach_def
  flagForPlayer_def idForFlag_def getFlag_def setFlag_def HasEnded_def isActivated_def
  activateFlag_def startMinigameForFlag_def notifyMinigameStart_def SendPlayer_def Send_def
  ForAllShipPlayers_def ForAllPlayers_def setActivity_def MinigameContext_Start_def ensureValid_def
  ClickRace_Start_def MinigameContext_ForAllPlayers_def SingleTimer_def duration_def
  ProtoSp_def newState_def ExpiredTimer_def
  HandleMessage_def removePlayer_def Lobby_RemovePlayer_def Team_RemovePlayer_def PlayerCount_def
  forget_def triggerEndgame_def notifyPeerLeft_def tryEnterEndgame_def enterEndgame_def Stop_def
  StopWith_def send_quit_def clearForEndgame_def tryEnd_def areAnyMinigamesOngoing_def end'_def
  GetActivity_def endSp_def ExactlyOnePlayer_def MinigameContext_End_def endMinigame_def
  flagForMinigame_def startCooldown_def notifyMinigameResult_def IndividualWorth_def
  spreadPlayers_def welcomePlayerBack_def ForAllShipPeers_def ForAllActivityPeers_def
  ForAllLobbyPeers_def invalidate_def addPlayersToFlags_def SinglePlayerLoss_def

lemma tryEnd_iff_no_minigame:
  "tryEnd s = (if areAnyMinigamesOngoing s then Some s
               else if list_ex (\<lambda>p. Activity (players s p) \<noteq> Some (InShip (lobby s)))
                               (ForAllPlayers (lobbies s (lobby s)))
               then None else end' s)"
  by (simp add: tryEnd_def)

text \<open>
  Claim C1, on the code. Player 0 starts the single-player click race at time 10. At time
  20 player 1 leaves the ship: the ship enters endgame, stops its timer (on a copy: the
  ship's timer keeps its \<open>quit\<close> channel) and cannot end, because the minigame is running.
  At time 30, before the end time 600 of the ship timer, the click race ends with a loss.
  \<open>endMinigame\<close> asks \<open>ship.timer.HasEnded()\<close>, which is false, and does not try to end
  the game: the ship is in endgame with no minigame running, player 0 is still in the ship
  and has not been sent \<open>ship_game_end\<close>. A call of \<open>tryEnd\<close> then would have ended the
  game.
\<close>

theorem endgame_not_retried:
  "(case tryActivateFlag 0 10 click_race_ship of
      None \<Rightarrow> False
    | Some s1 \<Rightarrow>
        (case HandleMessage 1 \<lparr>Type = ''lobby_bye'', payload = Map.empty\<rparr> 20 s1 of
           None \<Rightarrow> False
         | Some (err, s2) \<Rightarrow>
             isEndgame s2 \<and> areAnyMinigamesOngoing s2 \<and>
             (case impl (contexts s2 0) of
                Some (ClickRace st) \<Rightarrow>
                  (case endSp st 0 30 s2 of
                     None \<Rightarrow> False
                   | Some s3 \<Rightarrow>
                       isEndgame s3 \<and> \<not> areAnyMinigamesOngoing s3
                       \<and> Activity (players s3 0) = Some (InShip 0)
                       \<and> (0, ''ship_game_end'') \<notin> set (out s3)
                       \<and> \<not> HasEnded (timer s3) 30
                       \<and> (case tryEnd s3 of
                             None \<Rightarrow> False
                           | Some s4 \<Rightarrow> Activity (players s4 0) = Some (InLobbyActivity 0)
                                         \<and> (0, ''ship_game_end'') \<in> set (out s4)))
              | _ \<Rightarrow> False)))"
  by (simp add: click_race_ship_def click_race_flag_def two_player_ship_def ship_simps Let_def)

text \<open>
  The same game with the click race ending at time 700, after the end time of the ship
  timer: \<open>endMinigame\<close> triggers the endgame again and the game ends in the same turn.
\<close>

lemma endgame_retried_after_timer_end:
  "(case tryActivateFlag 0 10 click_race_ship of
      None \<Rightarrow> False
    | Some s1 \<Rightarrow>
        (case HandleMessage 1 \<lparr>Type = ''lobby_bye'', payload = Map.empty\<rparr> 20 s1 of
           None \<Rightarrow> False
         | Some (err, s2) \<Rightarrow>
             (case impl (contexts s2 0) of
                Some (ClickRace st) \<Rightarrow>
                  (case endSp st 0 700 s2 of
                     None \<Rightarrow> False
                   | Some s3 \<Rightarrow>
                       Activity (players s3 0) = Some (InLobbyActivity 0)
                       \<and> (0, ''ship_game_end'') \<in> set (out s3))
              | _ \<Rightarrow> False)))"
  by (simp add: click_race_ship_def click_race_flag_def two_player_ship_def ship_simps Let_def)

section \<open>Theorems: the threshold store of the single-player click race\<close>

lemma storage_out [simp]: "storage (s\<lparr>out := x\<rparr>) = storage s"
  by (simp add: storage_def)

lemma map_entry_store:
  "(\<And>fl. store (upd fl) = store fl) \<Longrightarrow>
   map (\<lambda>(f, fl). (f, store fl)) (AList.map_entry k upd al) = map (\<lambda>(f, fl). (f, store fl)) al"
  by (induction al) auto

lemma storage_setFlag:
  "(\<And>fl. store (upd fl) = store fl) \<Longrightarrow> storage (setFlag f upd s) = storage s"
  by (simp add: storage_def setFlag_def map_entry_store)

lemma storage_setActivity [simp]: "storage (setActivity a p s) = storage s"
  by (simp add: storage_def setActivity_def)

lemma storage_fold_setActivity [simp]: "storage (fold (setActivity a) ps s) = storage s"
  by (induction ps arbitrary: s) auto

lemma SendPlayers_storage: "SendPlayers ps typ s = Some s' \<Longrightarrow> storage s' = storage s"
  by (auto dest: SendPlayers_out)

lemma SendPlayer_storage: "SendPlayer p typ s = Some s' \<Longrightarrow> storage s' = storage s"
  by (auto dest: SendPlayer_out)

lemma forEach_storage:
  assumes "\<And>x s s'. fn x s = Some s' \<Longrightarrow> storage s' = storage s"
  shows "forEach fn xs s = Some s' \<Longrightarrow> storage s' = storage s"
proof (induction xs arbitrary: s)
  case Nil
  then show ?case by simp
next
  case (Cons x xs)
  then obtain s1 where "fn x s = Some s1" "forEach fn xs s1 = Some s'"
    by (auto split: option.splits)
  with Cons.IH [of s1] assms [of x s s1] show ?case by simp
qed

lemma notifyMinigameStart_storage: "notifyMinigameStart f s = Some s' \<Longrightarrow> storage s' = storage s"
  unfolding notifyMinigameStart_def
  by (auto split: option.splits if_splits
      dest!: SendPlayers_storage
      forEach_storage [rotated, where fn = "\<lambda>shipPlayer s'. if shipPlayer \<in> set (lockedPlayers _) then Some s'
           else SendPlayers (map (\<lambda>minigamePlayer. shipPlayer) (lockedPlayers _)) ''ship_peer_minigame_join'' s'"])

lemma ClickRace_Start_storage: "ClickRace_Start st ctx now s = Some s' \<Longrightarrow> storage s' = storage s"
  unfolding ClickRace_Start_def
  by (auto split: option.splits if_splits prod.splits dest!: SendPlayers_storage simp: storage_def)

lemma MinigameContext_Start_storage: "MinigameContext_Start ctx now s = Some s' \<Longrightarrow> storage s' = storage s"
  unfolding MinigameContext_Start_def
  by (auto split: option.splits MinigameImpl.splits dest!: ClickRace_Start_storage)

lemma startMinigameForFlag_storage: "startMinigameForFlag f now s = Some s' \<Longrightarrow> storage s' = storage s"
proof -
  assume a: "startMinigameForFlag f now s = Some s'"
  then obtain s1 where s1: "notifyMinigameStart f s = Some s1"
    by (auto simp: startMinigameForFlag_def split: option.splits)
  with a obtain fl where fl: "getFlag s1 f = Some fl"
    by (auto simp: startMinigameForFlag_def split: option.splits)
  with a s1 obtain a' where a': "activation fl = Some a'"
    by (auto simp: startMinigameForFlag_def split: option.splits)
  from a s1 fl a' have st: "MinigameContext_Start (nextContext s1) now
       (setFlag f (\<lambda>fl. fl\<lparr>activation := None\<rparr>)
         (fold (setActivity (Some (InMinigame (nextContext s1)))) (lockedPlayers a')
           (setFlag f (\<lambda>fl. fl\<lparr>minigame := Some (nextContext s1)\<rparr>)
             (s1\<lparr>contexts := (contexts s1)(nextContext s1 :=
                                  \<lparr>Ship = Some (lobby s1), Store = store fl,
                                   proto = Some (minigameProto fl),
                                   impl = Some (Constructor (minigameProto fl) now)\<rparr>),
                                nextContext := Suc (nextContext s1)\<rparr>)))) = Some s'"
    by (simp add: startMinigameForFlag_def Let_def)
  have "storage (s1\<lparr>contexts := (contexts s1)(nextContext s1 :=
                                  \<lparr>Ship = Some (lobby s1), Store = store fl,
                                   proto = Some (minigameProto fl),
                                   impl = Some (Constructor (minigameProto fl) now)\<rparr>),
                                nextContext := Suc (nextContext s1)\<rparr>) = storage s1"
    by (simp add: storage_def)
  with MinigameContext_Start_storage [OF st] notifyMinigameStart_storage [OF s1]
  show ?thesis by (simp add: storage_setFlag)
qed

lemma addPlayerToFlag_storage: "addPlayerToFlag f p s = Some s' \<Longrightarrow> storage s' = storage s"
  unfolding addPlayerToFlag_def
  by (auto split: option.splits dest!: SendPlayers_storage SendPlayer_storage simp: storage_setFlag)

lemma randInt_storage [simp]: "storage (snd (randInt s)) = storage s"
  by (simp add: randInt_def storage_def)

lemma addPlayersToFlags_players_storage:
  "addPlayersToFlags_players f ps s = Some s' \<Longrightarrow> storage s' = storage s"
proof (induction f ps s rule: addPlayersToFlags_players.induct)
  case (1 f ps s)
  show ?case
  proof (cases "ps = []")
    case True
    with "1.prems" show ?thesis by (simp add: addPlayersToFlags_players.simps)
  next
    case False
    with "1.prems" obtain s1 fl ps' where
      a: "addPlayerToFlag f (ps ! (fst (randInt s) mod length ps)) (snd (randInt s)) = Some s1"
      and g: "getFlag s1 f = Some fl"
      and d: "deleteUnneeded s1 fl (ps ! (fst (randInt s) mod length ps)) ps = Some ps'"
      and r: "addPlayersToFlags_players f ps' s1 = Some s'"
      by (subst (asm) addPlayersToFlags_players.simps) (auto split: option.splits)
    from "1.IH" [OF False a g d r] addPlayerToFlag_storage [OF a]
    show ?thesis by simp
  qed
qed

lemma addPlayersToFlags_loop_storage:
  "addPlayersToFlags_loop m now s = Some s' \<Longrightarrow> storage s' = storage s"
proof (induction m arbitrary: s)
  case Nil
  then show ?case by simp
next
  case (Cons e m)
  obtain f ps where e: "e = (f, ps)" by (cases e)
  from Cons.prems e obtain s1 s2 where
    s1: "addPlayersToFlags_players f ps s = Some s1"
    and s2: "s2 = s1 \<or> startMinigameForFlag f now s1 = Some s2"
    and r: "addPlayersToFlags_loop m now s2 = Some s'"
    by (auto split: option.splits bool.splits)
  from s2 have "storage s2 = storage s1"
    by (auto dest: startMinigameForFlag_storage)
  with Cons.IH [OF r] addPlayersToFlags_players_storage [OF s1]
  show ?case by simp
qed

lemma addPlayersToFlags_storage: "addPlayersToFlags now s = Some s' \<Longrightarrow> storage s' = storage s"
  unfolding addPlayersToFlags_def
  by (auto split: option.splits if_splits dest!: addPlayersToFlags_loop_storage)

lemma startCooldown_storage: "startCooldown f now s = Some s' \<Longrightarrow> storage s' = storage s"
  unfolding startCooldown_def TickingTimer_def
  by (auto split: option.splits simp: storage_setFlag) (simp add: storage_def)

lemma end'_storage: "end' s = Some s' \<Longrightarrow> storage s' = storage s"
  unfolding end'_def
  by (auto split: option.splits if_splits
      dest!: forEach_storage [rotated, where fn = "\<lambda>p s'. SendPlayer p ''ship_game_end''
                               (setActivity (Some (InLobbyActivity _)) p s')"]
      dest: SendPlayer_storage)

lemma tryEnd_storage: "tryEnd s = Some s' \<Longrightarrow> storage s' = storage s"
  unfolding tryEnd_def
  by (auto split: if_splits dest!: end'_storage)

lemma clearForEndgame_loop_storage:
  "clearForEndgame_loop fs now s = Some s' \<Longrightarrow> storage s' = storage s"
proof (induction fs arbitrary: s)
  case Nil
  then show ?case by simp
next
  case (Cons f fs)
  then obtain rt where r: "clearForEndgame_loop fs now
                 ((setFlag f (\<lambda>fl. fl\<lparr>activation := None\<rparr>) s)\<lparr>scheduler := rt\<rparr>) = Some s'"
    by (auto split: option.splits outcome.splits)
  have "storage ((setFlag f (\<lambda>fl. fl\<lparr>activation := None\<rparr>) s)\<lparr>scheduler := rt\<rparr>) = storage s"
    using storage_setFlag [of "\<lambda>fl. fl\<lparr>activation := None\<rparr>" f s]
    by (simp add: storage_def)
  with Cons.IH [OF r] show ?case by simp
qed

lemma enterEndgame_storage: "enterEndgame now s = Some s' \<Longrightarrow> storage s' = storage s"
proof -
  assume "enterEndgame now s = Some s'"
  then obtain rt s1 s2 where
    c: "clearForEndgame_loop (map fst (flags (s\<lparr>isEndgame := True, scheduler := rt\<rparr>))) now
          (s\<lparr>isEndgame := True, scheduler := rt\<rparr>) = Some s1"
    and n: "SendPlayers (ForAllPlayers (lobbies s1 (lobby s1))) ''ship_endgame'' s1 = Some s2"
    and t: "tryEnd s2 = Some s'"
    by (auto simp: enterEndgame_def clearForEndgame_def split: outcome.splits option.splits)
  have "storage (s\<lparr>isEndgame := True, scheduler := rt\<rparr>) = storage s"
    by (simp add: storage_def)
  with clearForEndgame_loop_storage [OF c] SendPlayers_storage [OF n] tryEnd_storage [OF t]
  show ?thesis by simp
qed

lemma triggerEndgame_storage: "triggerEndgame name now s = Some s' \<Longrightarrow> storage s' = storage s"
  unfolding triggerEndgame_def tryEnterEndgame_def notifyPeerLeft_def
  by (auto split: option.splits if_splits dest!: enterEndgame_storage tryEnd_storage SendPlayers_storage)

lemma Lobby_RemovePlayer_storage:
  "Lobby_RemovePlayer l p s = Some s' \<Longrightarrow> storage s' = storage s"
  unfolding Lobby_RemovePlayer_def Team_RemovePlayer_def forget_def
  by (auto split: option.splits if_splits simp: Let_def storage_def)

lemma removePlayer_storage: "removePlayer p now s = Some s' \<Longrightarrow> storage s' = storage s"
proof -
  assume "removePlayer p now s = Some s'"
  then obtain s1 where
    l: "Lobby_RemovePlayer (lobby s) p
               (setActivity None p
                  (s\<lparr>pm := (pm s)(p := None),
                     individualScores := (individualScores s)(p := None)\<rparr>)) = Some s1"
    and t: "triggerEndgame (Some (Name (players s1 p))) now s1 = Some s'"
    by (auto simp: removePlayer_def split: if_splits option.splits)
  have "storage (s\<lparr>pm := (pm s)(p := None),
                     individualScores := (individualScores s)(p := None)\<rparr>) = storage s"
    by (simp add: storage_def)
  with Lobby_RemovePlayer_storage [OF l] triggerEndgame_storage [OF t]
  show ?thesis by simp
qed

lemma welcomePlayerBack_storage: "welcomePlayerBack p s = Some s' \<Longrightarrow> storage s' = storage s"
  unfolding welcomePlayerBack_def
  by (auto split: option.splits if_splits dest!: SendPlayers_storage SendPlayer_storage)

lemma spreadPlayers_storage [simp]: "storage (spreadPlayers around d ps s) = storage s"
  by (simp add: spreadPlayers_def storage_def Let_def split: list.splits)

lemma invalidate_storage [simp]: "storage (invalidate ctx s) = storage s"
  by (simp add: invalidate_def storage_def)

lemma forEach_welcome_storage:
  "forEach (\<lambda>p s'. welcomePlayerBack p (setActivity a p s')) ps s = Some s' \<Longrightarrow> storage s' = storage s"
  by (erule forEach_storage [rotated]) (auto dest: welcomePlayerBack_storage)

lemma forEach_welcome_storage':
  "forEach (\<lambda>p s'. welcomePlayerBack p (setActivity (Some (InShip (lobby s'))) p s')) ps s = Some s'
     \<Longrightarrow> storage s' = storage s"
  by (erule forEach_storage [rotated]) (auto dest: welcomePlayerBack_storage)

lemma storage_owner [simp]:
  "storage (setFlag f (\<lambda>fl. fl\<lparr>owner := x\<rparr>) s) = storage s"
  "storage (setFlag f (\<lambda>fl. fl\<lparr>minigame := y\<rparr>) s) = storage s"
  "storage (setFlag f (\<lambda>fl. fl\<lparr>activation := z\<rparr>) s) = storage s"
  by (simp_all add: storage_setFlag)

lemma storage_scores [simp]:
  "storage (s\<lparr>individualScores := x\<rparr>) = storage s"
  by (simp add: storage_def)

lemma endMinigame_storage:
  assumes a: "endMinigame ctx result now s = Some s'"
  shows "storage s' = storage s"
proof -
  from a obtain f where f: "flagForMinigame s ctx = Some f"
    by (auto simp: endMinigame_def split: option.splits)
  with a obtain flagID where i: "idForFlag s f = Some flagID"
    by (auto simp: endMinigame_def split: option.splits)
  with a f obtain s1 where s1: "(if \<not> isEndgame s then startCooldown f now s else Some s) = Some s1"
    by (auto simp: endMinigame_def split: option.splits)
  define s1' where "s1' = (case winningTeam result of None \<Rightarrow> s1
              | Some t \<Rightarrow> setFlag f (\<lambda>fl. fl\<lparr>owner := Some t\<rparr>) s1)"
  from a f i s1 obtain s2 where s2: "notifyMinigameResult s1' = Some s2"
    unfolding s1'_def by (auto simp: endMinigame_def split: option.splits)
  with a f i s1 obtain fl where fl: "getFlag s2 f = Some fl"
    unfolding s1'_def by (auto simp: endMinigame_def split: option.splits)
  with a f i s1 s2 obtain participants where
    p: "MinigameContext_ForAllPlayers (setFlag f (\<lambda>fl. fl\<lparr>minigame := None\<rparr>) s2) ctx = Some participants"
    unfolding s1'_def by (auto simp: endMinigame_def split: option.splits)
  define s3 where "s3 = setFlag f (\<lambda>fl. fl\<lparr>minigame := None\<rparr>) s2"
  define cps where "cps = filter (\<lambda>p. Some p \<noteq> disconnected result) participants"
  define s4 where "s4 = s3\<lparr>individualScores :=
                    fold (\<lambda>p m. if Team (players s3 p) = winningTeam result
                                then m(p \<mapsto> (case m p of None \<Rightarrow> 0 | Some v \<Rightarrow> v) + IndividualWorth (minigameProto fl))
                                else m)
                         cps (individualScores s3)\<rparr>"
  define s5 where "s5 = spreadPlayers (pos fl) 20 (shuffle s4 cps) s4"
  from a f i s1 s2 fl p obtain s6 where
    s6: "forEach (\<lambda>p s'. welcomePlayerBack p (setActivity (Some (InShip (lobby s'))) p s'))
                   (shuffle s4 cps) s5 = Some s6"
    unfolding s1'_def s3_def s4_def s5_def cps_def
    by (auto simp: endMinigame_def Let_def split: option.splits)
  with a f i s1 s2 fl p obtain s7 where
    s7: "(if HasEnded (timer (invalidate ctx s6)) now
            then triggerEndgame None now (invalidate ctx s6)
            else Some (invalidate ctx s6)) = Some s7"
    unfolding s1'_def s3_def s4_def s5_def cps_def
    by (auto simp: endMinigame_def Let_def split: option.splits)
  with a f i s1 s2 fl p s6 have last: "(case disconnected result of
         Some d \<Rightarrow> removePlayer d now (setActivity (Some (InShip (lobby s7))) d s7)
       | None \<Rightarrow> addPlayersToFlags now s7) = Some s'"
    unfolding s1'_def s3_def s4_def s5_def cps_def
    by (auto simp: endMinigame_def Let_def split: option.splits)
  have e1: "storage s1 = storage s"
    using s1 by (auto split: if_splits dest: startCooldown_storage)
  have e1': "storage s1' = storage s1"
    by (simp add: s1'_def split: option.splits)
  have e2: "storage s2 = storage s1'"
    using s2 by (auto simp: notifyMinigameResult_def dest: SendPlayers_storage)
  have e5: "storage s5 = storage s2"
    by (simp add: s5_def s4_def s3_def)
  have e6: "storage s6 = storage s5"
    using forEach_welcome_storage' [OF s6] .
  have e7: "storage s7 = storage s6"
    using s7 by (auto split: if_splits dest: triggerEndgame_storage)
  have e8: "storage s' = storage s7"
    using last by (auto split: option.splits dest: removePlayer_storage addPlayersToFlags_storage)
  from e1 e1' e2 e5 e6 e7 e8 show ?thesis by simp
qed

lemma MinigameContext_End_storage:
  "MinigameContext_End ctx result now s = Some s' \<Longrightarrow> storage s' = storage s"
  by (auto simp: MinigameContext_End_def split: option.splits dest: endMinigame_storage)

lemma tryActivateFlag_storage:
  "tryActivateFlag p now s = Some s' \<Longrightarrow> storage s' = storage s"
  unfolding tryActivateFlag_def activateFlag_def
  by (auto split: option.splits if_splits
      dest!: SendPlayer_storage startMinigameForFlag_storage addPlayerToFlag_storage addPlayersToFlags_storage)

lemma forEach_out:
  assumes "\<And>x (s :: 'a world_scheme) s'. fn x s = Some s' \<Longrightarrow> \<exists>msgs. s' = s\<lparr>out := out s @ msgs\<rparr>"
  shows "forEach fn xs s = Some s' \<Longrightarrow> \<exists>msgs. s' = s\<lparr>out := out s @ msgs\<rparr>"
proof (induction xs arbitrary: s)
  case Nil
  then show ?case by (auto intro: exI [of _ "[]"])
next
  case (Cons x xs)
  then obtain s1 where a: "fn x s = Some s1" and b: "forEach fn xs s1 = Some s'"
    by (auto split: option.splits)
  from assms [OF a] obtain m1 where m1: "s1 = s\<lparr>out := out s @ m1\<rparr>" by blast
  from Cons.IH [OF b] obtain m2 where "s' = s1\<lparr>out := out s1 @ m2\<rparr>" by blast
  with m1 have "s' = s\<lparr>out := out s @ (m1 @ m2)\<rparr>" by simp
  then show ?case by blast
qed

lemma notifyMinigameStart_out:
  assumes "notifyMinigameStart f s = Some s'"
  shows "\<exists>msgs. s' = s\<lparr>out := out s @ msgs\<rparr>"
proof -
  from assms obtain fl a s1 where a: "getFlag s f = Some fl" "activation fl = Some a"
    and s1: "SendPlayers (lockedPlayers a) ''ship_minigame_join'' s = Some s1"
    and r: "forEach (\<lambda>shipPlayer s'.
                              if shipPlayer \<in> set (lockedPlayers a) then Some s'
                              else SendPlayers (map (\<lambda>minigamePlayer. shipPlayer) (lockedPlayers a))
                                     ''ship_peer_minigame_join'' s')
                           (ForAllShipPlayers s1) s1 = Some s'"
    by (auto simp: notifyMinigameStart_def split: option.splits)
  from SendPlayers_out [OF s1] obtain m1 where m1: "s1 = s\<lparr>out := out s @ m1\<rparr>" by blast
  have "\<exists>msgs. s' = s1\<lparr>out := out s1 @ msgs\<rparr>"
  proof (rule forEach_out [OF _ r])
    fix x and t t' :: ship
    assume "(if x \<in> set (lockedPlayers a) then Some t
             else SendPlayers (map (\<lambda>minigamePlayer. x) (lockedPlayers a)) ''ship_peer_minigame_join'' t) = Some t'"
    then show "\<exists>msgs. t' = t\<lparr>out := out t @ msgs\<rparr>"
      by (auto split: if_splits dest: SendPlayers_out intro: exI [of _ "[]"])
  qed
  then obtain m2 where "s' = s1\<lparr>out := out s1 @ m2\<rparr>" by blast
  with m1 have "s' = s\<lparr>out := out s @ (m1 @ m2)\<rparr>" by simp
  then show ?thesis by blast
qed

lemma ClickRace_Start_Store:
  "ClickRace_Start st ctx now s = Some s' \<Longrightarrow> Store (contexts s' ctx) = Store (contexts s ctx)"
  unfolding ClickRace_Start_def SingleTimer_def
  by (auto split: option.splits if_splits dest!: SendPlayers_out)

lemma startMinigameForFlag_Store:
  assumes a: "startMinigameForFlag f now s = Some s'" and g: "getFlag s f = Some fl"
  shows "Store (contexts s' (nextContext s)) = store fl"
proof -
  from a obtain s1 where s1: "notifyMinigameStart f s = Some s1"
    by (auto simp: startMinigameForFlag_def split: option.splits)
  from notifyMinigameStart_out [OF s1] obtain msgs where m: "s1 = s\<lparr>out := out s @ msgs\<rparr>" by blast
  then have g1: "getFlag s1 f = Some fl" and n: "nextContext s1 = nextContext s"
    using g by (simp_all add: getFlag_def)
  with a s1 obtain a' where a': "activation fl = Some a'"
    by (auto simp: startMinigameForFlag_def split: option.splits)
  define s5 where "s5 = setFlag f (\<lambda>fl. fl\<lparr>activation := None\<rparr>)
         (fold (setActivity (Some (InMinigame (nextContext s1)))) (lockedPlayers a')
           (setFlag f (\<lambda>fl. fl\<lparr>minigame := Some (nextContext s1)\<rparr>)
             (s1\<lparr>contexts := (contexts s1)(nextContext s1 :=
                                  \<lparr>Ship = Some (lobby s1), Store = store fl,
                                   proto = Some (minigameProto fl),
                                   impl = Some (Constructor (minigameProto fl) now)\<rparr>),
                                nextContext := Suc (nextContext s1)\<rparr>)))"
  from a s1 g1 a' have st: "MinigameContext_Start (nextContext s1) now s5 = Some s'"
    by (simp add: startMinigameForFlag_def Let_def s5_def)
  have fold_ctx: "contexts (fold (setActivity x) ps t) = contexts t" for x ps and t :: ship
    by (induction ps arbitrary: t) (auto simp: setActivity_def)
  have "Store (contexts s5 (nextContext s1)) = store fl"
    by (simp add: s5_def setFlag_def fold_ctx)
  moreover have "Store (contexts s' (nextContext s1)) = Store (contexts s5 (nextContext s1))"
    using st by (auto simp: MinigameContext_Start_def split: option.splits MinigameImpl.splits
        dest: ClickRace_Start_Store)
  ultimately show ?thesis using n by simp
qed

lemma endSp_loss:
  assumes "ExactlyOnePlayer s ctx = Some player" "Store (contexts s ctx) = Some r"
    "scoreStores s r = IntStore t"
    "(case reportedScores st player of None \<Rightarrow> 0 | Some v \<Rightarrow> v) \<le> t"
  shows "endSp st ctx now s = MinigameContext_End ctx SinglePlayerLoss now s"
  using assms by (simp add: endSp_def Let_def)

lemma endSp_win:
  assumes "ExactlyOnePlayer s ctx = Some player" "Store (contexts s ctx) = Some r"
    "scoreStores s r = IntStore t"
    "t < (case reportedScores st player of None \<Rightarrow> 0 | Some v \<Rightarrow> v)"
  shows "endSp st ctx now s
           = MinigameContext_End ctx \<lparr>winningTeam = Team (players s player), disconnected = None\<rparr> now
               (s\<lparr>scoreStores := (scoreStores s)
                    (r := IntStore (case reportedScores st player of None \<Rightarrow> 0 | Some v \<Rightarrow> v))\<rparr>)"
  using assms by (simp add: endSp_def Let_def SinglePlayerWin_def)

lemma endSp_store:
  assumes "ExactlyOnePlayer s ctx = Some player" "Store (contexts s ctx) = Some r"
    "scoreStores s r = IntStore t"
    and e: "endSp st ctx now s = Some s'"
  shows "scoreStores s' = (scoreStores s)
             (r := IntStore (max t (case reportedScores st player of None \<Rightarrow> 0 | Some v \<Rightarrow> v)))
         \<and> map (\<lambda>(f, fl). (f, store fl)) (flags s') = map (\<lambda>(f, fl). (f, store fl)) (flags s)"
proof (cases "t < (case reportedScores st player of None \<Rightarrow> 0 | Some v \<Rightarrow> v)")
  case True
  from endSp_win [OF assms(1-3) True, of now] e
  have "MinigameContext_End ctx \<lparr>winningTeam = Team (players s player), disconnected = None\<rparr> now
               (s\<lparr>scoreStores := (scoreStores s)
                    (r := IntStore (case reportedScores st player of None \<Rightarrow> 0 | Some v \<Rightarrow> v))\<rparr>) = Some s'"
    by simp
  from MinigameContext_End_storage [OF this] True show ?thesis
    by (simp add: storage_def max_def)
next
  case False
  then have "(case reportedScores st player of None \<Rightarrow> 0 | Some v \<Rightarrow> v) \<le> t" by simp
  from endSp_loss [OF assms(1-3) this, of now] e
  have "MinigameContext_End ctx SinglePlayerLoss now s = Some s'" by simp
  from MinigameContext_End_storage [OF this] False assms(3) show ?thesis
    by (auto simp: storage_def max_def)
qed

text \<open>
  Claim C7. In the single-player click race with an integer threshold store \<open>r\<close> holding
  \<open>t\<close>, with \<open>score\<close> the score reported by the one player of the minigame (0 when none
  was reported): \<open>endSp\<close> ends the minigame with \<open>SinglePlayerLoss\<close> in the unchanged ship
  if \<open>score \<le> t\<close>, and with the win result for the player's team, after writing \<open>score\<close>
  to the store, if \<open>t < score\<close>; in the ship it returns the store \<open>r\<close> holds the greater of
  \<open>t\<close> and \<open>score\<close>, every other store is as it was and every flag has the store it had.
  No store is written and no flag is given another store when a flag is activated or a
  minigame is ended, and the minigame started for a flag is given the flag's store: the
  store is not reset across plays of a flag.
\<close>

theorem endSp_threshold:
  "(ExactlyOnePlayer s ctx = Some player \<and> Store (contexts s ctx) = Some r
      \<and> scoreStores s r = IntStore t
      \<and> score = (case reportedScores st player of None \<Rightarrow> 0 | Some v \<Rightarrow> v) \<longrightarrow>
      (score \<le> t \<longrightarrow> endSp st ctx now s = MinigameContext_End ctx SinglePlayerLoss now s)
      \<and> (t < score \<longrightarrow>
            endSp st ctx now s
              = MinigameContext_End ctx \<lparr>winningTeam = Team (players s player), disconnected = None\<rparr> now
                  (s\<lparr>scoreStores := (scoreStores s)(r := IntStore score)\<rparr>))
      \<and> (\<forall>s'. endSp st ctx now s = Some s' \<longrightarrow>
            scoreStores s' = (scoreStores s)(r := IntStore (max t score))
            \<and> map (\<lambda>(f, fl). (f, store fl)) (flags s') = map (\<lambda>(f, fl). (f, store fl)) (flags s)))
   \<and> (\<forall>p s'. tryActivateFlag p now s = Some s' \<longrightarrow> storage s' = storage s)
   \<and> (\<forall>c res s'. MinigameContext_End c res now s = Some s' \<longrightarrow> storage s' = storage s)
   \<and> (\<forall>f fl s'. startMinigameForFlag f now s = Some s' \<and> getFlag s f = Some fl \<longrightarrow>
          Store (contexts s' (nextContext s)) = store fl)"
proof -
  have a: "ExactlyOnePlayer s ctx = Some player \<and> Store (contexts s ctx) = Some r
      \<and> scoreStores s r = IntStore t
      \<and> score = (case reportedScores st player of None \<Rightarrow> 0 | Some v \<Rightarrow> v) \<longrightarrow>
      (score \<le> t \<longrightarrow> endSp st ctx now s = MinigameContext_End ctx SinglePlayerLoss now s)
      \<and> (t < score \<longrightarrow>
            endSp st ctx now s
              = MinigameContext_End ctx \<lparr>winningTeam = Team (players s player), disconnected = None\<rparr> now
                  (s\<lparr>scoreStores := (scoreStores s)(r := IntStore score)\<rparr>))
      \<and> (\<forall>s'. endSp st ctx now s = Some s' \<longrightarrow>
            scoreStores s' = (scoreStores s)(r := IntStore (max t score))
            \<and> map (\<lambda>(f, fl). (f, store fl)) (flags s') = map (\<lambda>(f, fl). (f, store fl)) (flags s))"
    using endSp_loss [of s ctx player r t st now] endSp_win [of s ctx player r t st now]
      endSp_store [of s ctx player r t st now]
    by blast
  have b: "\<forall>p s'. tryActivateFlag p now s = Some s' \<longrightarrow> storage s' = storage s"
    using tryActivateFlag_storage by blast
  have c: "\<forall>c res s'. MinigameContext_End c res now s = Some s' \<longrightarrow> storage s' = storage s"
    using MinigameContext_End_storage by blast
  have d: "\<forall>f fl s'. startMinigameForFlag f now s = Some s' \<and> getFlag s f = Some fl \<longrightarrow>
          Store (contexts s' (nextContext s)) = store fl"
    using startMinigameForFlag_Store by blast
  from a b c d show ?thesis by (intro conjI)
qed

text \<open>
  Two plays of the flag \<open>idfk\<close>: player 0 reports 7 against the threshold 0 and wins, the
  threshold becomes 7; player 1 walks to the flag, plays after the cooldown, reports 5 and
  loses, and the threshold is still 7.
\<close>

theorem endSp_threshold_witness:
  "(case tryActivateFlag 0 10 click_race_ship of
      None \<Rightarrow> False
    | Some s1 \<Rightarrow>
        ExactlyOnePlayer s1 0 = Some 0 \<and> Store (contexts s1 0) = Some 0
        \<and> scoreStores s1 0 = IntStore 0
        \<and> (case endSp \<lparr>reportedScores = [0 \<mapsto> 7], gameTimer = ExpiredTimer 10\<rparr> 0 30 s1 of
              None \<Rightarrow> False
            | Some s2 \<Rightarrow>
                scoreStores s2 = (scoreStores s1)(0 := IntStore 7)
                \<and> map_option owner (getFlag s2 ''idfk'') = Some (Some (0, 0))
                \<and> (case HandleMessage 1 \<lparr>Type = ''ship_mov_position_update'',
                                           payload = [''x'' \<mapsto> VFloat64 192, ''y'' \<mapsto> VFloat64 (- 208)]\<rparr>
                            40 s2 of
                      None \<Rightarrow> False
                    | Some (err, s3) \<Rightarrow>
                        (case tryActivateFlag 1 6000000000 s3 of
                           None \<Rightarrow> False
                         | Some s4 \<Rightarrow>
                             ExactlyOnePlayer s4 1 = Some 1 \<and> Store (contexts s4 1) = Some 0
                             \<and> scoreStores s4 0 = IntStore 7
                             \<and> (case endSp \<lparr>reportedScores = [1 \<mapsto> 5], gameTimer = ExpiredTimer 10\<rparr>
                                        1 6000000100 s4 of
                                   None \<Rightarrow> False
                                 | Some s5 \<Rightarrow>
                                     scoreStores s5 = (scoreStores s4)(0 := IntStore 7)
                                     \<and> map_option owner (getFlag s5 ''idfk'') = Some (Some (0, 0)))))))"
proof -
  let ?st7 = "\<lparr>reportedScores = [0 \<mapsto> 7], gameTimer = ExpiredTimer 10\<rparr>"
  let ?st5 = "\<lparr>reportedScores = [1 \<mapsto> 5], gameTimer = ExpiredTimer 10\<rparr>"
  let ?m = "\<lparr>Type = ''ship_mov_position_update'',
             payload = [''x'' \<mapsto> VFloat64 192, ''y'' \<mapsto> VFloat64 (- 208)]\<rparr>"
  have run: "(case tryActivateFlag 0 10 click_race_ship of
      None \<Rightarrow> False
    | Some s1 \<Rightarrow>
        ExactlyOnePlayer s1 0 = Some 0 \<and> Store (contexts s1 0) = Some 0
        \<and> scoreStores s1 0 = IntStore 0
        \<and> (case endSp ?st7 0 30 s1 of
              None \<Rightarrow> False
            | Some s2 \<Rightarrow>
                map_option owner (getFlag s2 ''idfk'') = Some (Some (0, 0))
                \<and> (case HandleMessage 1 ?m 40 s2 of
                      None \<Rightarrow> False
                    | Some (err, s3) \<Rightarrow>
                        (case tryActivateFlag 1 6000000000 s3 of
                           None \<Rightarrow> False
                         | Some s4 \<Rightarrow>
                             ExactlyOnePlayer s4 1 = Some 1 \<and> Store (contexts s4 1) = Some 0
                             \<and> scoreStores s4 0 = IntStore 7
                             \<and> (case endSp ?st5 1 6000000100 s4 of
                                   None \<Rightarrow> False
                                 | Some s5 \<Rightarrow>
                                     map_option owner (getFlag s5 ''idfk'') = Some (Some (0, 0)))))))"
    by (simp add: click_race_ship_def click_race_flag_def two_player_ship_def ship_simps Let_def
      PositionManager_HandleMessage_def TrimPrefix_def msgPrefix_def doPositionUpdate_def
      GetNumber_def doSetPosition_def notifyNewPosition_def SinglePlayerWin_def TickingTimer_def
      findEligiblePlayersForFlags_def oldestFlagNeedingPlayer_def needsPlayer_def hasAllPlayers_def)
  from run obtain s1 where a: "tryActivateFlag 0 10 click_race_ship = Some s1"
    and h1: "ExactlyOnePlayer s1 0 = Some 0" "Store (contexts s1 0) = Some 0"
      "scoreStores s1 0 = IntStore 0"
    and r1: "(case endSp ?st7 0 30 s1 of
              None \<Rightarrow> False
            | Some s2 \<Rightarrow>
                map_option owner (getFlag s2 ''idfk'') = Some (Some (0, 0))
                \<and> (case HandleMessage 1 ?m 40 s2 of
                      None \<Rightarrow> False
                    | Some (err, s3) \<Rightarrow>
                        (case tryActivateFlag 1 6000000000 s3 of
                           None \<Rightarrow> False
                         | Some s4 \<Rightarrow>
                             ExactlyOnePlayer s4 1 = Some 1 \<and> Store (contexts s4 1) = Some 0
                             \<and> scoreStores s4 0 = IntStore 7
                             \<and> (case endSp ?st5 1 6000000100 s4 of
                                   None \<Rightarrow> False
                                 | Some s5 \<Rightarrow>
                                     map_option owner (getFlag s5 ''idfk'') = Some (Some (0, 0))))))"
    by (cases "tryActivateFlag 0 10 click_race_ship") simp_all
  from r1 obtain s2 where b: "endSp ?st7 0 30 s1 = Some s2"
    and o2: "map_option owner (getFlag s2 ''idfk'') = Some (Some (0, 0))"
    and r2: "(case HandleMessage 1 ?m 40 s2 of
                      None \<Rightarrow> False
                    | Some (err, s3) \<Rightarrow>
                        (case tryActivateFlag 1 6000000000 s3 of
                           None \<Rightarrow> False
                         | Some s4 \<Rightarrow>
                             ExactlyOnePlayer s4 1 = Some 1 \<and> Store (contexts s4 1) = Some 0
                             \<and> scoreStores s4 0 = IntStore 7
                             \<and> (case endSp ?st5 1 6000000100 s4 of
                                   None \<Rightarrow> False
                                 | Some s5 \<Rightarrow>
                                     map_option owner (getFlag s5 ''idfk'') = Some (Some (0, 0)))))"
    by (cases "endSp ?st7 0 30 s1") simp_all
  from r2 obtain err s3 where c: "HandleMessage 1 ?m 40 s2 = Some (err, s3)"
    and r3: "(case tryActivateFlag 1 6000000000 s3 of
                           None \<Rightarrow> False
                         | Some s4 \<Rightarrow>
                             ExactlyOnePlayer s4 1 = Some 1 \<and> Store (contexts s4 1) = Some 0
                             \<and> scoreStores s4 0 = IntStore 7
                             \<and> (case endSp ?st5 1 6000000100 s4 of
                                   None \<Rightarrow> False
                                 | Some s5 \<Rightarrow>
                                     map_option owner (getFlag s5 ''idfk'') = Some (Some (0, 0))))"
    by (cases "HandleMessage 1 ?m 40 s2") auto
  from r3 obtain s4 where d: "tryActivateFlag 1 6000000000 s3 = Some s4"
    and h4: "ExactlyOnePlayer s4 1 = Some 1" "Store (contexts s4 1) = Some 0"
      "scoreStores s4 0 = IntStore 7"
    and r4: "(case endSp ?st5 1 6000000100 s4 of
                                   None \<Rightarrow> False
                                 | Some s5 \<Rightarrow>
                                     map_option owner (getFlag s5 ''idfk'') = Some (Some (0, 0)))"
    by (cases "tryActivateFlag 1 6000000000 s3") simp_all
  from r4 obtain s5 where e: "endSp ?st5 1 6000000100 s4 = Some s5"
    and o5: "map_option owner (getFlag s5 ''idfk'') = Some (Some (0, 0))"
    by (cases "endSp ?st5 1 6000000100 s4") simp_all
  from endSp_threshold [of s1 0 0 0 0 7 ?st7 30] h1 b
  have t1: "scoreStores s2 = (scoreStores s1)(0 := IntStore 7)"
    by simp
  from endSp_threshold [of s4 1 1 0 7 5 ?st5 6000000100] h4 e
  have t2: "scoreStores s5 = (scoreStores s4)(0 := IntStore 7)"
    by simp
  show ?thesis
    by (simp only: a h1 b o2 c d h4 e o5 t1 t2 option.case prod.case simp_thms)
qed

section \<open>Theorems: activating a flag\<close>





lemma members_out [simp]: "members (s\<lparr>out := x\<rparr>) = members s"
  by (simp add: members_def)

lemma start_ok_frame:
  "scoreStores s' = scoreStores s \<Longrightarrow> start_ok s' now fl = start_ok s now fl"
  by (simp add: start_ok_def split: MinigameImpl.splits option.splits)


lemma ship_ok_cong:
  assumes "flags s' = flags s" "lobbies s' = lobbies s" "lobby s' = lobby s"
    "scoreStores s' = scoreStores s"
    "\<And>p. Client (players s' p) = Client (players s p)"
    "\<And>p. Team (players s' p) = Team (players s p)"
  shows "ship_ok s' now = ship_ok s now"
proof -
  have st: "start_ok s' now = start_ok s now"
    by (rule ext) (rule start_ok_frame [OF assms(4)])
  have me: "members s' = members s"
    by (simp add: members_def assms)
  show ?thesis
    unfolding ship_ok_def st me assms ..
qed

lemma ship_ok_out [simp]: "ship_ok (s\<lparr>out := x\<rparr>) now = ship_ok s now"
  by (rule ship_ok_cong) simp_all

lemma ship_ok_rands [simp]: "ship_ok (s\<lparr>rands := x\<rparr>) now = ship_ok s now"
  by (rule ship_ok_cong) simp_all











lemma map_fst_map_entry [simp]: "map fst (AList.map_entry k upd al) = map fst al"
  by (induction al) auto






lemma fold_setActivity_frame [simp]:
  "flags (fold (setActivity x) ps t) = flags t"
  "lobbies (fold (setActivity x) ps t) = lobbies t"
  "lobby (fold (setActivity x) ps t) = lobby t"
  "scoreStores (fold (setActivity x) ps t) = scoreStores t"
  "isEndgame (fold (setActivity x) ps t) = isEndgame t"
  "contexts (fold (setActivity x) ps t) = contexts t"
  "nextContext (fold (setActivity x) ps t) = nextContext t"
  "out (fold (setActivity x) ps t) = out t"
  "scheduler (fold (setActivity x) ps t) = scheduler t"
  by (induction ps arbitrary: t) (auto simp: setActivity_def)











lemma ForAllShipPlayers_frame:
  "players s' = players s \<Longrightarrow> lobbies s' = lobbies s \<Longrightarrow> lobby s' = lobby s \<Longrightarrow>
     ForAllShipPlayers s' = ForAllShipPlayers s"
  by (simp add: ForAllShipPlayers_def)


















end
